theory Spec2Isabelle
  imports Complex_Main "HOL-Library.Monad_Syntax" "HOL-Library.Product_Lexorder"
    "HOL-Library.Log_Nat"
begin

section \<open>The primal simplex engine of HiGHS (simplex/HEkkPrimal.cpp)\<close>

text \<open>
  A shallow embedding of the iteration engine \<^verbatim>\<open>HEkkPrimal\<close>. Conventions:

  \<^item> A C++ \<^verbatim>\<open>double\<close> is a \<^typ>\<open>real\<close>, and its arithmetic is exact, with two
    exceptions, where the behaviour of the code rests on the arithmetic of the doubles:
    the bound-shift helper checks its own rounding error, so each of its operations
    rounds (\<open>fl\<close>); and the bound-swap decision adds to the solver's infinity, which
    absorbs what is added to it (\<open>inf_add\<close>).
  \<^item> \<^verbatim>\<open>assert(c)\<close> is modelled as the source is compiled without \<^verbatim>\<open>NDEBUG\<close>: a
    failed assertion aborts the program. A function that contains an assertion returns
    an \<^typ>\<open>'a option\<close>, and \<^term>\<open>None\<close> is the abort. All other failures of the engine
    are ordinary values of its state (\<^verbatim>\<open>solvePhase = SOLVE_PHASE_ERROR\<close>, a rebuild
    reason), as in the source.
  \<^item> Logging, timers, the iteration analysis record and the records of the maximum and
    the sum of the infeasibilities that \<^verbatim>\<open>HEkk\<close> keeps for its reports (which the engine
    only invalidates, with \<^verbatim>\<open>invalidateDualInfeasibilityRecord\<close> and
    \<^verbatim>\<open>invalidatePrimalMaxSumInfeasibilityRecord\<close>) write nothing the engine reads back;
    they are left out.
  \<^item> Collaborators whose code is outside this file (FTRAN, BTRAN, PRICE, the basis
    update, the debug checks) are parameters, collected in the record \<open>Collab\<close>.
\<close>

subsection \<open>Enumerations and vectors\<close>

datatype HighsModelStatus =
  NOTSET | SOLVE_ERROR | PRIMAL_INFEASIBLE | PRIMAL_UNBOUNDED | PRIMAL_DUAL_INFEASIBLE
  | DUAL_INFEASIBLE | OPTIMAL

datatype SolvePhase =
  SOLVE_PHASE_ERROR | SOLVE_PHASE_EXIT | SOLVE_PHASE_UNKNOWN | SOLVE_PHASE_OPTIMAL
  | SOLVE_PHASE_1 | SOLVE_PHASE_2 | SOLVE_PHASE_CLEANUP

datatype RebuildReason =
  REBUILD_REASON_NO
  | REBUILD_REASON_UPDATE_LIMIT_REACHED
  | REBUILD_REASON_SYNTHETIC_CLOCK_SAYS_INVERT
  | REBUILD_REASON_POSSIBLY_OPTIMAL
  | REBUILD_REASON_POSSIBLY_PRIMAL_UNBOUNDED
  | REBUILD_REASON_POSSIBLY_SINGULAR_BASIS
  | REBUILD_REASON_PRIMAL_INFEASIBLE_IN_PRIMAL_SIMPLEX

text \<open>\<^verbatim>\<open>HVector\<close>: a dense array with the list of its nonzero positions.\<close>

record HVector =
  count :: nat
  index :: "nat list"
  array :: "real list"
  syntheticTick :: real

definition assert :: "bool \<Rightarrow> unit option" where
  "assert c = (if c then Some () else None)"

subsection \<open>Rounding\<close>

text \<open>
  The rounding of the doubles (IEEE 754 binary64, to nearest, ties to even): \<open>binade x\<close> is
  the exponent \<open>e\<close> with \<open>2^e \<le> |x| < 2^(e+1)\<close>, computed from the bit length of the integer
  part of \<open>|x|\<close> or of \<open>1 / |x|\<close>; the doubles of that binade are the multiples of
  \<open>2^(e-52)\<close>, and \<open>fl x\<close> is the nearest of them. The range of the exponent is not
  modelled: there is no overflow and there are no subnormal numbers.
\<close>

definition binade :: "real \<Rightarrow> int" where
  "binade x = (if \<bar>x\<bar> \<ge> 1 then bitlen \<lfloor>\<bar>x\<bar>\<rfloor> - 1 else - bitlen (\<lceil>1 / \<bar>x\<bar>\<rceil> - 1))"

definition pow2 :: "int \<Rightarrow> real" where
  "pow2 e = (if e \<ge> 0 then 2 ^ nat e else 1 / 2 ^ nat (- e))"

definition round_even :: "real \<Rightarrow> int" where
  "round_even y =
     (let f = \<lfloor>y\<rfloor>; d = y - real_of_int f
      in if d < 1 / 2 then f else if d > 1 / 2 then f + 1 else if even f then f else f + 1)"

definition fl :: "real \<Rightarrow> real" where
  "fl x = (if x = 0 then 0
           else let ulp = pow2 (binade x - 52) in real_of_int (round_even (x / ulp)) * ulp)"

subsection \<open>The bound-shift helper\<close>

text \<open>
  \<^verbatim>\<open>HEkkPrimal::shiftBound\<close>. The reference parameters \<^verbatim>\<open>bound\<close> and \<^verbatim>\<open>sum_shift\<close> are
  returned as a pair; \<^verbatim>\<open>iVar\<close> and \<^verbatim>\<open>report\<close> only feed the log message. Every
  operation on doubles rounds its result, and the literal \<^verbatim>\<open>1e-12\<close> is the double nearest
  to it: the last assertion of the function is about the rounding error of the ones
  before.
\<close>

definition shiftBound ::
  "bool \<Rightarrow> real \<Rightarrow> real \<Rightarrow> real \<Rightarrow> real \<Rightarrow> real \<Rightarrow> (real \<times> real) option" where
  "shiftBound lower val random_value tolerance bound sum_shift =
    (let feasibility = fl (fl (1 + random_value) * tolerance) in
     if lower then do {
       _ \<leftarrow> assert (val < fl (bound - tolerance));
       let infeasibility = fl (bound - val);
       _ \<leftarrow> assert (infeasibility > 0);
       let shift = fl (infeasibility + feasibility);
       let bound = fl (bound - shift);
       let sum_shift = fl (sum_shift + shift);
       let new_infeasibility = fl (bound - val);
       _ \<leftarrow> assert (new_infeasibility < 0);
       let error = \<bar>fl (- new_infeasibility - feasibility)\<bar>;
       _ \<leftarrow> assert (error < fl (1 / 10 ^ 12));
       Some (bound, sum_shift)
     } else do {
       _ \<leftarrow> assert (val > fl (bound + tolerance));
       let infeasibility = fl (val - bound);
       _ \<leftarrow> assert (infeasibility > 0);
       let shift = fl (infeasibility + feasibility);
       let bound = fl (bound + shift);
       let sum_shift = fl (sum_shift + shift);
       let new_infeasibility = fl (val - bound);
       _ \<leftarrow> assert (new_infeasibility < 0);
       let error = \<bar>fl (- new_infeasibility - feasibility)\<bar>;
       _ \<leftarrow> assert (error < fl (1 / 10 ^ 12));
       Some (bound, sum_shift)
     })"

subsection \<open>The state of the engine\<close>

text \<open>
  \<^verbatim>\<open>SimplexBasis\<close>, \<^verbatim>\<open>HighsSimplexInfo\<close> and the \<^verbatim>\<open>HEkk\<close> instance, with the fields the
  engine reads or writes. A trailing underscore of a member name is dropped (\<open>workDual\<close> is \<^verbatim>\<open>workDual_\<close>). The nested structs \<^verbatim>\<open>simplex_lp_\<close>, \<^verbatim>\<open>options_\<close> and
  \<^verbatim>\<open>simplex_lp_status_\<close> of \<^verbatim>\<open>HEkk\<close> are flattened into it.
\<close>

record SimplexBasis =
  basicIndex :: "nat list"
  nonbasicFlag :: "int list"
  nonbasicMove :: "int list"

record HighsSimplexInfo =
  workLower :: "real list"
  workUpper :: "real list"
  workValue :: "real list"
  workCost :: "real list"
  workDual :: "real list"
  workLowerShift :: "real list"
  workUpperShift :: "real list"
  numTotRandomValue :: "real list"
  baseLower :: "real list"
  baseUpper :: "real list"
  baseValue :: "real list"
  num_primal_infeasibilities :: int
  update_count :: int
  update_limit :: int
  primal_bound_swap :: int
  bounds_perturbed :: bool
  allow_bound_perturbation :: bool
  primal_objective_value :: real
  updated_primal_objective_value :: real

typedecl HFactor

record HEkk =
  simplex_basis :: SimplexBasis
  simplex_info :: HighsSimplexInfo
  factor :: HFactor
  numCol :: nat
  numRow :: nat
  options_primal_feasibility_tolerance :: real
  options_dual_feasibility_tolerance :: real
  iteration_count :: int
  scaled_model_status :: HighsModelStatus
  solve_bailout :: bool
  has_primal_objective_value :: bool
  has_dual_objective_value :: bool
  total_syntheticTick :: real

text \<open>
  Modelled from the spec: \<^verbatim>\<open>util/HSet\<close> is not among the sources. The spec (4.2)
  describes a subset of a bounded universe with \<open>add\<close> (no-op if present), \<open>remove\<close>
  (true iff removed), \<open>contains\<close>, \<open>count\<close> and the iteration over its entries, kept as a
  compact member array: here the list of the members in insertion order.
\<close>

type_synonym HSet = "nat list"




definition HSet_remove :: "nat \<Rightarrow> HSet \<Rightarrow> bool \<times> HSet" where
  "HSet_remove v S = (if v \<in> set S then (True, remove1 v S) else (False, S))"

definition HSet_in :: "nat \<Rightarrow> HSet \<Rightarrow> bool" where
  "HSet_in v S = (v \<in> set S)"

definition HSet_count :: "HSet \<Rightarrow> nat" where
  "HSet_count S = length S"

definition HSet_entry :: "HSet \<Rightarrow> nat list" where
  "HSet_entry S = S"

text \<open>The members of \<^verbatim>\<open>HEkkPrimal\<close>.\<close>

record HEkkPrimal =
  ekk_instance :: HEkk
  num_col :: nat
  num_row :: nat
  num_tot :: nat
  primal_feasibility_tolerance :: real
  dual_feasibility_tolerance :: real
  solvePhase :: SolvePhase
  rebuild_reason :: RebuildReason
  variable_in :: int
  row_out :: int
  variable_out :: int
  move_in :: int
  move_out :: int
  theta_dual :: real
  theta_primal :: real
  value_in :: real
  alpha_col :: real
  alpha_row :: real
  numericalTrouble :: real
  col_aq :: HVector
  row_ep :: HVector
  row_ap :: HVector
  col_basic_feasibility_change :: HVector
  row_basic_feasibility_change :: HVector
  ph1SorterR :: "(real \<times> int) list"
  ph1SorterT :: "(real \<times> int) list"
  devex_weight :: "real list"
  devex_index :: "int list"
  num_devex_iterations :: int
  num_bad_devex_weight :: int
  num_free_col :: int
  nonbasic_free_col_set :: HSet
  use_hyper_chuzc :: bool
  initialise_hyper_chuzc :: bool
  done_next_chuzc :: bool
  max_changed_measure_value :: real
  max_changed_measure_column :: int
  max_hyper_chuzc_non_candidate_measure :: real
  num_hyper_chuzc_candidates :: nat
  hyper_chuzc_candidate :: "int list"
  hyper_chuzc_measure :: "real list"
  num_flip_since_rebuild :: int

abbreviation info :: "HEkkPrimal \<Rightarrow> HighsSimplexInfo" where
  "info s \<equiv> simplex_info (ekk_instance s)"

abbreviation basis :: "HEkkPrimal \<Rightarrow> SimplexBasis" where
  "basis s \<equiv> simplex_basis (ekk_instance s)"

abbreviation map_ekk :: "(HEkk \<Rightarrow> HEkk) \<Rightarrow> HEkkPrimal \<Rightarrow> HEkkPrimal" where
  "map_ekk f s \<equiv> s\<lparr>ekk_instance := f (ekk_instance s)\<rparr>"

abbreviation map_info :: "(HighsSimplexInfo \<Rightarrow> HighsSimplexInfo) \<Rightarrow> HEkkPrimal \<Rightarrow> HEkkPrimal" where
  "map_info f s \<equiv> s\<lparr>ekk_instance := (ekk_instance s)\<lparr>simplex_info := f (info s)\<rparr>\<rparr>"

abbreviation map_basis :: "(SimplexBasis \<Rightarrow> SimplexBasis) \<Rightarrow> HEkkPrimal \<Rightarrow> HEkkPrimal" where
  "map_basis f s \<equiv> s\<lparr>ekk_instance := (ekk_instance s)\<lparr>simplex_basis := f (basis s)\<rparr>\<rparr>"


definition NONBASIC_FLAG_FALSE :: int where
  "NONBASIC_FLAG_FALSE = 0"

definition bad_devex_weight_factor :: real where
  "bad_devex_weight_factor = 3"

text \<open>
  The collaborators and the remaining constants, as parameters. \<open>HIGHS_CONST_INF\<close> is the
  solver's infinity, a real number here (see \<open>inf_add\<close> for its sums); \<open>sparseLoopStyle\<close> returns whether a loop walks
  the index list of a vector (then over \<open>count\<close> entries) or its whole range.
  \<open>updateFactor\<close> receives pointers to the pivotal column, the pivotal row of the
  inverse, the pivotal row index and the rebuild reason, and may change all of them.
\<close>

record Collab =
  HIGHS_CONST_INF :: real
  max_num_hyper_chuzc_candidates :: nat
  allowed_num_bad_devex_weight :: int
  debugPrimalSimplex_ok :: "string \<Rightarrow> HEkkPrimal \<Rightarrow> bool"
  pivotColumnFtran :: "HEkk \<Rightarrow> int \<Rightarrow> HVector \<Rightarrow> HVector"
  dualValueSignOk :: "HEkk \<Rightarrow> real \<Rightarrow> int \<Rightarrow> HVector \<Rightarrow> bool"
  unitBtran :: "HEkk \<Rightarrow> int \<Rightarrow> HVector \<Rightarrow> HVector"
  tableauRowPrice :: "HEkk \<Rightarrow> HVector \<Rightarrow> HVector \<Rightarrow> HVector"
  sparseLoopStyle :: "nat \<Rightarrow> nat \<Rightarrow> bool"
  factor_btran :: "HEkk \<Rightarrow> HVector \<Rightarrow> HVector"
  choosePriceTechnique :: "HEkk \<Rightarrow> real \<Rightarrow> bool \<times> bool"
  priceByColumn :: "HEkk \<Rightarrow> HVector \<Rightarrow> HVector \<Rightarrow> HVector"
  priceByRowSparseResultWithSwitch :: "HEkk \<Rightarrow> HVector \<Rightarrow> HVector \<Rightarrow> HVector"
  priceByRowSparseResult :: "HEkk \<Rightarrow> HVector \<Rightarrow> HVector \<Rightarrow> HVector"
  updatePivots :: "int \<Rightarrow> int \<Rightarrow> int \<Rightarrow> HEkk \<Rightarrow> HEkk"
  updateFactor :: "HVector \<Rightarrow> HVector \<Rightarrow> int \<Rightarrow> RebuildReason \<Rightarrow> HEkk
                   \<Rightarrow> HEkk \<times> HVector \<times> HVector \<times> int \<times> RebuildReason"
  updateMatrix :: "int \<Rightarrow> int \<Rightarrow> HEkk \<Rightarrow> HEkk"
  initialiseBound :: "HEkk \<Rightarrow> HEkk"
  initialiseNonbasicWorkValue :: "HEkk \<Rightarrow> HEkk"
  computePrimal :: "HEkk \<Rightarrow> HEkk"
  computeSimplexPrimalInfeasible :: "HEkk \<Rightarrow> HEkk"
  computePrimalObjectiveValue :: "HEkk \<Rightarrow> HEkk"
  computeSimplexDualInfeasible :: "HEkk \<Rightarrow> HEkk"
  computeDualObjectiveValue :: "HEkk \<Rightarrow> HEkk"

text \<open>
  Modelled from the spec: \<^verbatim>\<open>HVector\<close> is not among the sources. The spec (4.1) gives
  \<open>setup(n)\<close> and \<open>clear\<close>, which zeroes the listed positions and empties the list.
\<close>

definition HVector_setup :: "nat \<Rightarrow> HVector" where
  "HVector_setup n = \<lparr>count = 0, index = replicate n 0, array = replicate n 0, syntheticTick = 0\<rparr>"

definition HVector_clear :: "HVector \<Rightarrow> HVector" where
  "HVector_clear v =
     v\<lparr>array := fold (\<lambda>i a. a[i := 0]) (take (count v) (index v)) (array v),
       count := 0, syntheticTick := 0\<rparr>"

text \<open>The entries a loop visits after consulting \<^verbatim>\<open>sparseLoopStyle(count, dim, to_entry)\<close> with \<open>dim = n\<close>.\<close>

definition loop_entries :: "Collab \<Rightarrow> HVector \<Rightarrow> nat \<Rightarrow> nat list" where
  "loop_entries c v n =
     (if sparseLoopStyle c (count v) n then take (count v) (index v) else [0..<n])"

text \<open>A loop whose body may fail an assertion.\<close>

fun foldM :: "('a \<Rightarrow> 'b \<Rightarrow> 'b option) \<Rightarrow> 'a list \<Rightarrow> 'b \<Rightarrow> 'b option" where
  "foldM f [] b = Some b"
| "foldM f (x # xs) b = (case f x b of None \<Rightarrow> None | Some b' \<Rightarrow> foldM f xs b')"

subsection \<open>The top-K heap of pricing candidates\<close>







subsection \<open>CHUZC: choosing the entering variable\<close>

text \<open>\<^verbatim>\<open>HEkkPrimal::hyperChooseColumnStart\<close> and \<^verbatim>\<open>hyperChooseColumnClear\<close>.\<close>

definition hyperChooseColumnStart :: "HEkkPrimal \<Rightarrow> HEkkPrimal" where
  "hyperChooseColumnStart s =
     s\<lparr>max_changed_measure_value := 0, max_changed_measure_column := - 1,
       done_next_chuzc := False\<rparr>"

definition hyperChooseColumnClear :: "HEkkPrimal \<Rightarrow> HEkkPrimal" where
  "hyperChooseColumnClear s =
     s\<lparr>initialise_hyper_chuzc := use_hyper_chuzc s,
       max_hyper_chuzc_non_candidate_measure := - 1,
       done_next_chuzc := False\<rparr>"

text \<open>\<^verbatim>\<open>HEkkPrimal::hyperChooseColumnChangedInfeasibility\<close>.\<close>

definition hyperChooseColumnChangedInfeasibility :: "real \<Rightarrow> nat \<Rightarrow> HEkkPrimal \<Rightarrow> HEkkPrimal" where
  "hyperChooseColumnChangedInfeasibility infeasibility iCol s =
     (if infeasibility > max_changed_measure_value s * devex_weight s ! iCol then
        s\<lparr>max_hyper_chuzc_non_candidate_measure :=
             max (max_changed_measure_value s) (max_hyper_chuzc_non_candidate_measure s),
          max_changed_measure_value := infeasibility / devex_weight s ! iCol,
          max_changed_measure_column := int iCol\<rparr>
      else if infeasibility > max_hyper_chuzc_non_candidate_measure s * devex_weight s ! iCol then
        s\<lparr>max_hyper_chuzc_non_candidate_measure := infeasibility / devex_weight s ! iCol\<rparr>
      else s)"

text \<open>
  \<^verbatim>\<open>HEkkPrimal::hyperChooseColumn\<close>. The loop over the candidates carries the local
  \<^verbatim>\<open>best_measure\<close> with \<^verbatim>\<open>variable_in\<close>.
\<close>

definition hyperChooseColumn_entry ::
  "HEkkPrimal \<Rightarrow> bool \<Rightarrow> nat \<Rightarrow> int \<times> real \<Rightarrow> (int \<times> real) option" where
  "hyperChooseColumn_entry s consider_nonbasic_free_column iEntry vb =
     (let iCol = nat (hyper_chuzc_candidate s ! iEntry) in
      if nonbasicFlag (basis s) ! iCol = NONBASIC_FLAG_FALSE then do {
        _ \<leftarrow> assert (nonbasicMove (basis s) ! iCol = 0);
        Some vb
      } else
        let dual_infeasibility = - real_of_int (nonbasicMove (basis s) ! iCol) * workDual (info s) ! iCol;
            dual_infeasibility =
              (if consider_nonbasic_free_column \<and> HSet_in iCol (nonbasic_free_col_set s)
               then \<bar>workDual (info s) ! iCol\<bar> else dual_infeasibility)
        in Some (if dual_infeasibility > dual_feasibility_tolerance s
                    \<and> dual_infeasibility > snd vb * devex_weight s ! iCol
                 then (int iCol, dual_infeasibility / devex_weight s ! iCol) else vb))"

definition hyperChooseColumn :: "HEkkPrimal \<Rightarrow> HEkkPrimal option" where
  "hyperChooseColumn s =
     (if \<not> use_hyper_chuzc s then Some s
      else if initialise_hyper_chuzc s then Some s
      else do {
        let consider_nonbasic_free_column = (HSet_count (nonbasic_free_col_set s) \<noteq> 0);
        (v, best_measure) \<leftarrow>
          foldM (hyperChooseColumn_entry s consider_nonbasic_free_column)
            [1..<Suc (num_hyper_chuzc_candidates s)]
            (max_changed_measure_column s, max_changed_measure_value s);
        let s = s\<lparr>variable_in := v\<rparr>;
        let s = (if variable_in s \<noteq> max_changed_measure_column s
                 then s\<lparr>max_hyper_chuzc_non_candidate_measure :=
                          max (max_changed_measure_value s) (max_hyper_chuzc_non_candidate_measure s)\<rparr>
                 else s);
        if best_measure \<ge> max_hyper_chuzc_non_candidate_measure s
        then Some (s\<lparr>done_next_chuzc := True\<rparr>)
        else do {
          _ \<leftarrow> assert (\<not> done_next_chuzc s);
          Some (s\<lparr>done_next_chuzc := False, initialise_hyper_chuzc := True\<rparr>)
        }
      })"






definition free_entries :: "HEkkPrimal \<Rightarrow> nat list" where
  "free_entries s =
     take (HSet_count (nonbasic_free_col_set s)) (HSet_entry (nonbasic_free_col_set s))"




subsection \<open>FTRAN and CHUZR: choosing the leaving row\<close>


text \<open>The pivot tolerance of both ratio tests, from the number of updates.\<close>

definition pivot_tolerance :: "HEkkPrimal \<Rightarrow> real" where
  "pivot_tolerance s =
     (if update_count (info s) < 10 then 1 / 10 ^ 9
      else if update_count (info s) < 20 then 1 / 10 ^ 8 else 1 / 10 ^ 7)"

text \<open>
  \<^verbatim>\<open>HEkkPrimal::phase1ChooseRow\<close>. \<open>phase1ChooseRow_collect\<close> is its first loop, which
  fills the lists R and T, \<open>phase1ChooseRow_select\<close> what it does once R is not empty;
  \<open>ph1_row\<close> decodes a signed row. The two walks with a
  \<^verbatim>\<open>break\<close> are recursive functions, the last loop is a search backwards through the
  first \<^verbatim>\<open>iLast\<close> entries of T.
\<close>

definition phase1ChooseRow_entry ::
  "Collab \<Rightarrow> HEkkPrimal \<Rightarrow> nat \<Rightarrow> (real \<times> int) list \<times> (real \<times> int) list
     \<Rightarrow> (real \<times> int) list \<times> (real \<times> int) list" where
  "phase1ChooseRow_entry c s iRow RT =
     (let dPivotTol = pivot_tolerance s;
          tol = primal_feasibility_tolerance s;
          value = baseValue (info s) ! iRow;
          lower = baseLower (info s) ! iRow;
          upper = baseUpper (info s) ! iRow;
          dAlpha = array (col_aq s) ! iRow * real_of_int (move_in s);
          RT = (if dAlpha > dPivotTol then
                  let RT = (if value > upper + tol then
                              let dFeasTheta = (value - upper - tol) / dAlpha
                              in (fst RT @ [(dFeasTheta, int iRow)], snd RT @ [(dFeasTheta, int iRow)])
                            else RT)
                  in (if value > lower - tol \<and> lower > - HIGHS_CONST_INF c then
                        let dRelaxTheta = (value - lower + tol) / dAlpha;
                            dTightTheta = (value - lower) / dAlpha
                        in (fst RT @ [(dRelaxTheta, int iRow - int (num_row s))],
                            snd RT @ [(dTightTheta, int iRow - int (num_row s))])
                      else RT)
                else RT)
      in (if dAlpha < - dPivotTol then
            let RT = (if value < lower - tol then
                        let dFeasTheta = (value - lower + tol) / dAlpha
                        in (fst RT @ [(dFeasTheta, int iRow - int (num_row s))],
                            snd RT @ [(dFeasTheta, int iRow - int (num_row s))])
                      else RT)
            in (if value < upper + tol \<and> upper < HIGHS_CONST_INF c then
                  let dRelaxTheta = (value - upper - tol) / dAlpha;
                      dTightTheta = (value - upper) / dAlpha
                  in (fst RT @ [(dRelaxTheta, int iRow)], snd RT @ [(dTightTheta, int iRow)])
                else RT)
          else RT))"

definition phase1ChooseRow_collect :: "Collab \<Rightarrow> HEkkPrimal \<Rightarrow> HEkkPrimal" where
  "phase1ChooseRow_collect c s =
     (let RT = fold (phase1ChooseRow_entry c s) (take (count (col_aq s)) (index (col_aq s))) ([], [])
      in s\<lparr>ph1SorterR := fst RT, ph1SorterT := snd RT\<rparr>)"

definition ph1_row :: "HEkkPrimal \<Rightarrow> int \<Rightarrow> nat" where
  "ph1_row s ix = nat (if ix \<ge> 0 then ix else ix + int (num_row s))"

fun ph1_max_theta :: "HEkkPrimal \<Rightarrow> (real \<times> int) list \<Rightarrow> real \<Rightarrow> real \<Rightarrow> real" where
  "ph1_max_theta s [] dGradient dMaxTheta = dMaxTheta"
| "ph1_max_theta s ((dMyTheta, ix) # rest) dGradient dMaxTheta =
     (let dGradient = dGradient - \<bar>array (col_aq s) ! ph1_row s ix\<bar>
      in if dGradient \<le> 0 then dMaxTheta else ph1_max_theta s rest dGradient dMyTheta)"

fun ph1_max_alpha :: "HEkkPrimal \<Rightarrow> real \<Rightarrow> (real \<times> int) list \<Rightarrow> nat \<Rightarrow> real \<Rightarrow> nat \<times> real" where
  "ph1_max_alpha s dMaxTheta [] i dMaxAlpha = (i, dMaxAlpha)"
| "ph1_max_alpha s dMaxTheta ((dMyTheta, ix) # rest) i dMaxAlpha =
     (let dAbsAlpha = \<bar>array (col_aq s) ! ph1_row s ix\<bar>
      in if dMyTheta > dMaxTheta then (i, dMaxAlpha)
         else ph1_max_alpha s dMaxTheta rest (Suc i)
                (if dMaxAlpha < dAbsAlpha then dAbsAlpha else dMaxAlpha))"

definition phase1ChooseRow_select :: "HEkkPrimal \<Rightarrow> HEkkPrimal" where
  "phase1ChooseRow_select s =
     (let s = s\<lparr>ph1SorterR := sort (ph1SorterR s)\<rparr>;
          dMaxTheta = ph1_max_theta s (ph1SorterR s) \<bar>theta_dual s\<bar> (fst (ph1SorterR s ! 0));
          s = s\<lparr>ph1SorterT := sort (ph1SorterT s)\<rparr>;
          la = ph1_max_alpha s dMaxTheta (ph1SorterT s) 0 0;
          iLast = fst la;
          dMaxAlpha = snd la;
          s = s\<lparr>row_out := - 1, variable_out := - 1, move_out := 0\<rparr>
      in (case find (\<lambda>p. \<bar>array (col_aq s) ! ph1_row s (snd p)\<bar> > dMaxAlpha * (1 / 10))
                 (rev (take iLast (ph1SorterT s))) of
            None \<Rightarrow> s
          | Some p \<Rightarrow> s\<lparr>row_out := int (ph1_row s (snd p)),
                         move_out := (if snd p \<ge> 0 then 1 else - 1)\<rparr>))"

definition phase1ChooseRow :: "Collab \<Rightarrow> HEkkPrimal \<Rightarrow> HEkkPrimal" where
  "phase1ChooseRow c s =
     (let s = phase1ChooseRow_collect c s in
      if ph1SorterR s = [] then s\<lparr>row_out := - 1, variable_out := - 1\<rparr>
      else phase1ChooseRow_select s)"

text \<open>\<^verbatim>\<open>HEkkPrimal::chooseRow\<close>: the two passes of the Harris ratio test of phase 2.\<close>

definition chooseRow_pass1 :: "HEkkPrimal \<Rightarrow> nat \<Rightarrow> real \<Rightarrow> real" where
  "chooseRow_pass1 s iRow relaxTheta =
     (let alphaTol = pivot_tolerance s;
          alpha = array (col_aq s) ! iRow * real_of_int (move_in s)
      in if alpha > alphaTol then
           let relaxSpace = baseValue (info s) ! iRow - baseLower (info s) ! iRow
                              + primal_feasibility_tolerance s
           in if relaxSpace < relaxTheta * alpha then relaxSpace / alpha else relaxTheta
         else if alpha < - alphaTol then
           let relaxSpace = baseValue (info s) ! iRow - baseUpper (info s) ! iRow
                              - primal_feasibility_tolerance s
           in if relaxSpace > relaxTheta * alpha then relaxSpace / alpha else relaxTheta
         else relaxTheta)"

definition chooseRow_pass2 :: "HEkkPrimal \<Rightarrow> real \<Rightarrow> nat \<Rightarrow> real \<times> int \<Rightarrow> real \<times> int" where
  "chooseRow_pass2 s relaxTheta iRow br =
     (let alphaTol = pivot_tolerance s;
          alpha = array (col_aq s) ! iRow * real_of_int (move_in s)
      in if alpha > alphaTol then
           let tightSpace = baseValue (info s) ! iRow - baseLower (info s) ! iRow
           in if tightSpace < relaxTheta * alpha \<and> fst br < alpha then (alpha, int iRow) else br
         else if alpha < - alphaTol then
           let tightSpace = baseValue (info s) ! iRow - baseUpper (info s) ! iRow
           in if tightSpace > relaxTheta * alpha \<and> fst br < - alpha then (- alpha, int iRow) else br
         else br)"

definition chooseRow :: "HEkkPrimal \<Rightarrow> HEkkPrimal" where
  "chooseRow s =
     (let rows = take (count (col_aq s)) (index (col_aq s));
          relaxTheta = fold (chooseRow_pass1 s) rows (10 ^ 100)
      in s\<lparr>row_out := snd (fold (chooseRow_pass2 s relaxTheta) rows (0, - 1))\<rparr>)"

subsection \<open>The bound-swap decision and the assessment of the pivot\<close>

text \<open>
  Sums in which a term may be the solver's infinity. \<^verbatim>\<open>HIGHS_CONST_INF\<close> is the infinity of
  the doubles, or a double as large as \<^verbatim>\<open>1e200\<close>: in either case the sum of it (or of its
  negative) and a double of smaller order is the infinite term itself, whatever is added.
  \<open>inf_add\<close> is the sum of two doubles with this absorption, and the exact sum when both
  terms are finite. (Two infinite terms of opposite sign give the first: their sum is not
  a number in the doubles, and no sum below has two infinite terms when the work values
  and the tolerance are finite.)
\<close>

definition inf_add :: "Collab \<Rightarrow> real \<Rightarrow> real \<Rightarrow> real" where
  "inf_add c x y =
     (if \<bar>x\<bar> \<ge> HIGHS_CONST_INF c then x
      else if \<bar>y\<bar> \<ge> HIGHS_CONST_INF c then y
      else x + y)"

text \<open>
  \<^verbatim>\<open>HEkkPrimal::considerBoundSwap\<close>, with its blocks named: \<open>considerBoundSwap_step\<close>
  computes the primal step (its first \<^verbatim>\<open>if\<close>), \<open>considerBoundSwap_flipped\<close> is the value of the
  local \<^verbatim>\<open>flipped\<close> and \<open>considerBoundSwap_flip\<close> the look for a bound flip. A zero
  \<^verbatim>\<open>alpha_col\<close> makes the quotient infinite or not a number, and both fail the assertion
  that \<^verbatim>\<open>theta_primal\<close> is finite. Without a leaving row the step is infinite
  (\<^verbatim>\<open>move_in * HIGHS_CONST_INF\<close>, with \<^verbatim>\<open>move_in\<close> 1 or -1), so the would-be value of the
  entering variable is infinite too and exceeds an opposite bound only if that bound is
  finite: the sums of the look for a flip are sums of doubles, \<open>inf_add\<close>.
\<close>

definition considerBoundSwap_step :: "Collab \<Rightarrow> HEkkPrimal \<Rightarrow> HEkkPrimal option" where
  "considerBoundSwap_step c s =
     (if row_out s < 0 then do {
        _ \<leftarrow> assert (solvePhase s = SOLVE_PHASE_2);
        Some (s\<lparr>theta_primal := real_of_int (move_in s) * HIGHS_CONST_INF c, move_out := 0\<rparr>)
      } else do {
        let s = s\<lparr>alpha_col := array (col_aq s) ! nat (row_out s)\<rparr>;
        let s = (if solvePhase s = SOLVE_PHASE_2
                 then s\<lparr>move_out := (if alpha_col s * real_of_int (move_in s) > 0 then - 1 else 1)\<rparr>
                 else s);
        let s = s\<lparr>theta_primal := 0\<rparr>;
        let s = (if move_out s = 1
                 then s\<lparr>theta_primal := (baseValue (info s) ! nat (row_out s)
                                           - baseUpper (info s) ! nat (row_out s)) / alpha_col s\<rparr>
                 else s\<lparr>theta_primal := (baseValue (info s) ! nat (row_out s)
                                           - baseLower (info s) ! nat (row_out s)) / alpha_col s\<rparr>);
        _ \<leftarrow> assert (alpha_col s \<noteq> 0 \<and> theta_primal s > - HIGHS_CONST_INF c
                     \<and> theta_primal s < HIGHS_CONST_INF c);
        Some s
      })"

definition considerBoundSwap_flipped :: "Collab \<Rightarrow> HEkkPrimal \<Rightarrow> bool" where
  "considerBoundSwap_flipped c s =
     (let lower_in = workLower (info s) ! nat (variable_in s);
          upper_in = workUpper (info s) ! nat (variable_in s);
          value_in = inf_add c (workValue (info s) ! nat (variable_in s)) (theta_primal s)
      in if move_in s > 0 then value_in > inf_add c upper_in (primal_feasibility_tolerance s)
         else value_in < inf_add c lower_in (- primal_feasibility_tolerance s))"

definition considerBoundSwap_flip :: "Collab \<Rightarrow> HEkkPrimal \<Rightarrow> HEkkPrimal" where
  "considerBoundSwap_flip c s =
     (let lower_in = workLower (info s) ! nat (variable_in s);
          upper_in = workUpper (info s) ! nat (variable_in s);
          s = s\<lparr>value_in := inf_add c (workValue (info s) ! nat (variable_in s)) (theta_primal s)\<rparr>
      in if move_in s > 0 then
           (if value_in s > inf_add c upper_in (primal_feasibility_tolerance s)
            then s\<lparr>row_out := - 1, value_in := upper_in,
                   theta_primal := inf_add c upper_in (- lower_in)\<rparr>
            else s)
         else
           (if value_in s < inf_add c lower_in (- primal_feasibility_tolerance s)
            then s\<lparr>row_out := - 1, value_in := lower_in,
                   theta_primal := inf_add c lower_in (- upper_in)\<rparr>
            else s))"

definition considerBoundSwap :: "Collab \<Rightarrow> HEkkPrimal \<Rightarrow> HEkkPrimal option" where
  "considerBoundSwap c s = do {
     s \<leftarrow> considerBoundSwap_step c s;
     let flipped = considerBoundSwap_flipped c s;
     let s = considerBoundSwap_flip c s;
     let pivot_or_flipped = (row_out s \<ge> 0 \<or> flipped);
     if solvePhase s = SOLVE_PHASE_2 \<and> \<not> pivot_or_flipped
     then Some (s\<lparr>rebuild_reason := REBUILD_REASON_POSSIBLY_PRIMAL_UNBOUNDED\<rparr>)
     else do {
       _ \<leftarrow> assert pivot_or_flipped;
       _ \<leftarrow> assert (flipped = (row_out s = - 1));
       Some s
     }
   }"

text \<open>
  \<^verbatim>\<open>HEkkPrimal::updateVerify\<close>. \<open>updateVerify_measure\<close> is the value it computes for
  \<^verbatim>\<open>numericalTrouble\<close> from the two pivot values. A zero \<^verbatim>\<open>min_abs_alpha\<close>, that is, a zero
  pivot value from the column or from the row, makes \<^verbatim>\<open>numericalTrouble\<close> infinite or not a
  number, and both fail the assertion \<^verbatim>\<open>numericalTrouble < 1e-3\<close>.
\<close>

definition updateVerify_measure :: "real \<Rightarrow> real \<Rightarrow> real" where
  "updateVerify_measure alpha_col' alpha_row' =
     (let abs_alpha_from_col = \<bar>alpha_col'\<bar>;
          abs_alpha_from_row = \<bar>alpha_row'\<bar>;
          abs_alpha_diff = \<bar>abs_alpha_from_col - abs_alpha_from_row\<bar>;
          min_abs_alpha = min abs_alpha_from_col abs_alpha_from_row
      in abs_alpha_diff / min_abs_alpha)"

definition updateVerify :: "HEkkPrimal \<Rightarrow> HEkkPrimal option" where
  "updateVerify s = do {
     let numerical_trouble_tolerance = (1 / 10 ^ 7 :: real);
     let s = s\<lparr>numericalTrouble := 0\<rparr>;
     let s = (if variable_in s < int (num_col s)
              then s\<lparr>alpha_row := array (row_ap s) ! nat (variable_in s)\<rparr>
              else s\<lparr>alpha_row := array (row_ep s) ! nat (variable_in s - int (num_col s))\<rparr>);
     let s = s\<lparr>numericalTrouble := updateVerify_measure (alpha_col s) (alpha_row s)\<rparr>;
     _ \<leftarrow> assert (alpha_col s \<noteq> 0 \<and> alpha_row s \<noteq> 0 \<and> numericalTrouble s < 1 / 10 ^ 3);
     Some (if numericalTrouble s > numerical_trouble_tolerance \<and> update_count (info s) > 0
           then s\<lparr>rebuild_reason := REBUILD_REASON_POSSIBLY_SINGULAR_BASIS\<rparr> else s)
   }"

text \<open>\<^verbatim>\<open>HEkkPrimal::assessPivot\<close>.\<close>

definition assessPivot :: "Collab \<Rightarrow> HEkkPrimal \<Rightarrow> HEkkPrimal option" where
  "assessPivot c s = do {
     _ \<leftarrow> assert (row_out s \<ge> 0);
     let s = s\<lparr>alpha_col := array (col_aq s) ! nat (row_out s)\<rparr>;
     let s = s\<lparr>variable_out := int (basicIndex (basis s) ! nat (row_out s))\<rparr>;
     let s = s\<lparr>row_ep := unitBtran c (ekk_instance s) (row_out s) (row_ep s)\<rparr>;
     let s = s\<lparr>row_ap := tableauRowPrice c (ekk_instance s) (row_ep s) (row_ap s)\<rparr>;
     updateVerify s
   }"

subsection \<open>The update of primal values, duals and weights\<close>

text \<open>\<^verbatim>\<open>HEkkPrimal::phase1UpdatePrimal\<close>, with the body of its loop.\<close>

definition phase1UpdatePrimal_entry :: "nat \<Rightarrow> HEkkPrimal \<Rightarrow> HEkkPrimal" where
  "phase1UpdatePrimal_entry iRow s =
     (let s = map_info (\<lambda>i. i\<lparr>baseValue := (baseValue i)
                 [iRow := baseValue i ! iRow - theta_primal s * array (col_aq s) ! iRow]\<rparr>) s;
          iCol = basicIndex (basis s) ! iRow;
          was_cost = workCost (info s) ! iCol;
          cost = (if baseValue (info s) ! iRow
                       < baseLower (info s) ! iRow - primal_feasibility_tolerance s then - 1
                  else if baseValue (info s) ! iRow
                       > baseUpper (info s) ! iRow + primal_feasibility_tolerance s then 1
                  else (0::real));
          s = map_info (\<lambda>i. i\<lparr>workCost := (workCost i)[iCol := cost]\<rparr>) s;
          s = (if was_cost \<noteq> 0 then
                 (if cost = 0
                  then map_info (\<lambda>i. i\<lparr>num_primal_infeasibilities := num_primal_infeasibilities i - 1\<rparr>) s
                  else s)
               else
                 (if cost \<noteq> 0
                  then map_info (\<lambda>i. i\<lparr>num_primal_infeasibilities := num_primal_infeasibilities i + 1\<rparr>) s
                  else s));
          delta_cost = cost - was_cost
      in if delta_cost \<noteq> 0 then
           let v = col_basic_feasibility_change s;
               s = s\<lparr>col_basic_feasibility_change :=
                       v\<lparr>array := (array v)[iRow := delta_cost],
                         index := (index v)[count v := iRow],
                         count := Suc (count v)\<rparr>\<rparr>
           in if iCol \<ge> num_col s
              then map_info (\<lambda>i. i\<lparr>workDual := (workDual i)[iCol := workDual i ! iCol + delta_cost]\<rparr>) s
              else s
         else s)"

definition phase1UpdatePrimal :: "HEkkPrimal \<Rightarrow> HEkkPrimal" where
  "phase1UpdatePrimal s =
     fold phase1UpdatePrimal_entry (take (count (col_aq s)) (index (col_aq s)))
       (s\<lparr>col_basic_feasibility_change := HVector_clear (col_basic_feasibility_change s)\<rparr>)"

text \<open>
  \<^verbatim>\<open>HEkkPrimal::basicFeasibilityChangeBtran\<close>, \<^verbatim>\<open>basicFeasibilityChangePrice\<close> and
  \<^verbatim>\<open>basicFeasibilityChangeUpdateDual\<close>.
\<close>

definition basicFeasibilityChangeBtran :: "Collab \<Rightarrow> HEkkPrimal \<Rightarrow> HEkkPrimal" where
  "basicFeasibilityChangeBtran c s =
     s\<lparr>col_basic_feasibility_change :=
         factor_btran c (ekk_instance s) (col_basic_feasibility_change s)\<rparr>"

definition basicFeasibilityChangePrice :: "Collab \<Rightarrow> HEkkPrimal \<Rightarrow> HEkkPrimal" where
  "basicFeasibilityChangePrice c s =
     (let solver_num_row = numRow (ekk_instance s);
          solver_num_col = numCol (ekk_instance s);
          local_density = 1 * real (count (col_basic_feasibility_change s)) / real solver_num_row;
          technique = choosePriceTechnique c (ekk_instance s) local_density;
          use_col_price = fst technique;
          use_row_price_w_switch = snd technique;
          s = s\<lparr>row_basic_feasibility_change := HVector_clear (row_basic_feasibility_change s)\<rparr>;
          s = s\<lparr>row_basic_feasibility_change :=
                  (if use_col_price then
                     priceByColumn c (ekk_instance s) (row_basic_feasibility_change s)
                       (col_basic_feasibility_change s)
                   else if use_row_price_w_switch then
                     priceByRowSparseResultWithSwitch c (ekk_instance s)
                       (row_basic_feasibility_change s) (col_basic_feasibility_change s)
                   else
                     priceByRowSparseResult c (ekk_instance s)
                       (row_basic_feasibility_change s) (col_basic_feasibility_change s))\<rparr>
      in if use_col_price then
           s\<lparr>row_basic_feasibility_change :=
               (row_basic_feasibility_change s)
                 \<lparr>array := fold (\<lambda>iCol a. a[iCol := a ! iCol * real_of_int (nonbasicFlag (basis s) ! iCol)])
                             [0..<solver_num_col] (array (row_basic_feasibility_change s))\<rparr>\<rparr>
         else s)"

definition basicFeasibilityChangeUpdateDual :: "Collab \<Rightarrow> HEkkPrimal \<Rightarrow> HEkkPrimal" where
  "basicFeasibilityChangeUpdateDual c s =
     (let s = basicFeasibilityChangeBtran c s;
          s = basicFeasibilityChangePrice c s;
          s = map_info (\<lambda>i. i\<lparr>workDual :=
                  fold (\<lambda>iCol d. d[iCol := d ! iCol - array (row_basic_feasibility_change s) ! iCol])
                    (loop_entries c (row_basic_feasibility_change s) (num_col s)) (workDual i)\<rparr>) s
      in map_info (\<lambda>i. i\<lparr>workDual :=
                  fold (\<lambda>iRow d. d[num_col s + iRow :=
                          d ! (num_col s + iRow) - array (col_basic_feasibility_change s) ! iRow])
                    (loop_entries c (col_basic_feasibility_change s) (num_row s)) (workDual i)\<rparr>) s)"

text \<open>
  \<^verbatim>\<open>HEkkPrimal::hyperChooseColumnBasicFeasibilityChange\<close>. \<open>changed_col\<close> and \<open>changed_free\<close>
  are the bodies of the loops of this function and of \<^verbatim>\<open>hyperChooseColumnDualChange\<close>.
\<close>

definition changed_col :: "nat \<Rightarrow> HEkkPrimal \<Rightarrow> HEkkPrimal" where
  "changed_col iCol s =
     (let dual_infeasibility = - real_of_int (nonbasicMove (basis s) ! iCol) * workDual (info s) ! iCol
      in if dual_infeasibility > dual_feasibility_tolerance s
         then hyperChooseColumnChangedInfeasibility dual_infeasibility iCol s else s)"

definition changed_free :: "nat \<Rightarrow> HEkkPrimal \<Rightarrow> HEkkPrimal" where
  "changed_free iCol s =
     (let dual_infeasibility = \<bar>workDual (info s) ! iCol\<bar>
      in if dual_infeasibility > dual_feasibility_tolerance s
         then hyperChooseColumnChangedInfeasibility dual_infeasibility iCol s else s)"

definition hyperChooseColumnBasicFeasibilityChange :: "Collab \<Rightarrow> HEkkPrimal \<Rightarrow> HEkkPrimal" where
  "hyperChooseColumnBasicFeasibilityChange c s =
     (if \<not> use_hyper_chuzc s then s
      else
        let s = fold changed_col (loop_entries c (row_basic_feasibility_change s) (num_col s)) s;
            s = fold (\<lambda>iRow. changed_col (num_col s + iRow))
                  (loop_entries c (col_basic_feasibility_change s) (num_row s)) s
        in if row_out s < 0 \<and> HSet_count (nonbasic_free_col_set s) \<noteq> 0
           then fold changed_free (free_entries s) s else s)"

text \<open>
  \<^verbatim>\<open>HEkkPrimal::phase2UpdatePrimal\<close> (called with \<^verbatim>\<open>initialise = false\<close>; the static maximum
  it keeps only feeds a message). The loop carries the local \<^verbatim>\<open>primal_infeasible\<close>.
\<close>

definition phase2UpdatePrimal_entry :: "nat \<Rightarrow> HEkkPrimal \<times> bool \<Rightarrow> HEkkPrimal \<times> bool" where
  "phase2UpdatePrimal_entry iRow sp =
     (let s = fst sp;
          s = map_info (\<lambda>i. i\<lparr>baseValue := (baseValue i)
                 [iRow := baseValue i ! iRow - theta_primal s * array (col_aq s) ! iRow]\<rparr>) s;
          lower = baseLower (info s) ! iRow;
          upper = baseUpper (info s) ! iRow;
          value = baseValue (info s) ! iRow;
          primal_infeasibility =
            (if value < lower - primal_feasibility_tolerance s then lower - value
             else if value > upper + primal_feasibility_tolerance s then value - upper
             else 0)
      in if primal_infeasibility > primal_feasibility_tolerance s
         then (map_info (\<lambda>i. i\<lparr>num_primal_infeasibilities := num_primal_infeasibilities i + 1\<rparr>) s, True)
         else (s, snd sp))"

definition phase2UpdatePrimal :: "HEkkPrimal \<Rightarrow> HEkkPrimal" where
  "phase2UpdatePrimal s =
     (let sp = fold phase2UpdatePrimal_entry (take (count (col_aq s)) (index (col_aq s))) (s, False);
          s = fst sp;
          s = (if snd sp then s\<lparr>rebuild_reason := REBUILD_REASON_PRIMAL_INFEASIBLE_IN_PRIMAL_SIMPLEX\<rparr>
               else s)
      in map_info (\<lambda>i. i\<lparr>updated_primal_objective_value :=
                            updated_primal_objective_value i
                            + workDual i ! nat (variable_in s) * theta_primal s\<rparr>) s)"

text \<open>\<^verbatim>\<open>HEkkPrimal::considerInfeasibleValueIn\<close>.\<close>

definition considerInfeasibleValueIn :: "HEkkPrimal \<Rightarrow> HEkkPrimal option" where
  "considerInfeasibleValueIn s = do {
     _ \<leftarrow> assert (row_out s \<ge> 0);
     let q = nat (variable_in s);
     let lower = workLower (info s) ! q;
     let upper = workUpper (info s) ! q;
     let cost = (if value_in s < lower - primal_feasibility_tolerance s then - 1
                 else if value_in s > upper + primal_feasibility_tolerance s then 1
                 else (0::real));
     if cost \<noteq> 0 then
       if solvePhase s = SOLVE_PHASE_1 then
         Some (map_info (\<lambda>i. i\<lparr>num_primal_infeasibilities := num_primal_infeasibilities i + 1,
                                 workCost := (workCost i)[q := cost],
                                 workDual := (workDual i)[q := workDual i ! q + cost]\<rparr>) s)
       else if allow_bound_perturbation (info s) then
         if cost > 0 then do {
           (bound, sum_shift) \<leftarrow>
             shiftBound False (value_in s) (numTotRandomValue (info s) ! q)
               (primal_feasibility_tolerance s) (workUpper (info s) ! q) (workUpperShift (info s) ! q);
           Some (map_info (\<lambda>i. i\<lparr>workUpper := (workUpper i)[q := bound],
                                   workUpperShift := (workUpperShift i)[q := sum_shift],
                                   bounds_perturbed := True\<rparr>) s)
         } else do {
           (bound, sum_shift) \<leftarrow>
             shiftBound True (value_in s) (numTotRandomValue (info s) ! q)
               (primal_feasibility_tolerance s) (workLower (info s) ! q) (workLowerShift (info s) ! q);
           Some (map_info (\<lambda>i. i\<lparr>workLower := (workLower i)[q := bound],
                                   workLowerShift := (workLowerShift i)[q := sum_shift],
                                   bounds_perturbed := True\<rparr>) s)
         }
       else
         Some ((map_info (\<lambda>i. i\<lparr>num_primal_infeasibilities := num_primal_infeasibilities i + 1\<rparr>) s)
                 \<lparr>rebuild_reason := REBUILD_REASON_PRIMAL_INFEASIBLE_IN_PRIMAL_SIMPLEX\<rparr>)
     else Some s
   }"

text \<open>\<^verbatim>\<open>HEkkPrimal::updateDual\<close>.\<close>

definition updateDual :: "HEkkPrimal \<Rightarrow> HEkkPrimal option" where
  "updateDual s = do {
     _ \<leftarrow> assert (alpha_col s \<noteq> 0);
     _ \<leftarrow> assert (row_out s \<ge> 0);
     let s = s\<lparr>theta_dual := workDual (info s) ! nat (variable_in s) / alpha_col s\<rparr>;
     let s = map_info (\<lambda>i. i\<lparr>workDual :=
                 fold (\<lambda>iCol d. d[iCol := d ! iCol - theta_dual s * array (row_ap s) ! iCol])
                   (take (count (row_ap s)) (index (row_ap s))) (workDual i)\<rparr>) s;
     let s = map_info (\<lambda>i. i\<lparr>workDual :=
                 fold (\<lambda>iRow d. d[iRow + num_col s :=
                         d ! (iRow + num_col s) - theta_dual s * array (row_ep s) ! iRow])
                   (take (count (row_ep s)) (index (row_ep s))) (workDual i)\<rparr>) s;
     let s = map_info (\<lambda>i. i\<lparr>workDual := (workDual i)[nat (variable_in s) := 0]\<rparr>) s;
     let s = map_info (\<lambda>i. i\<lparr>workDual := (workDual i)[nat (variable_out s) := - theta_dual s]\<rparr>) s;
     Some (map_ekk (\<lambda>e. e\<lparr>has_dual_objective_value := False\<rparr>) s)
   }"

text \<open>
  \<^verbatim>\<open>HEkkPrimal::updateDevex\<close>. \<open>devex_pivot_weight\<close> is \<^verbatim>\<open>dPivotWeight\<close> after the square root
  and before its division by the pivot.
\<close>

definition devex_pivot_weight :: "Collab \<Rightarrow> HEkkPrimal \<Rightarrow> real" where
  "devex_pivot_weight c s =
     (let dPivotWeight =
            fold (\<lambda>iRow w.
                    let iCol = basicIndex (basis s) ! iRow;
                        dAlpha = real_of_int (devex_index s ! iCol) * array (col_aq s) ! iRow
                    in w + dAlpha * dAlpha)
              (loop_entries c (col_aq s) (num_row s)) 0;
          dPivotWeight = dPivotWeight + real_of_int (devex_index s ! nat (variable_in s)) * 1
      in sqrt dPivotWeight)"

definition updateDevex_weight :: "HEkkPrimal \<Rightarrow> real \<Rightarrow> real \<Rightarrow> nat \<Rightarrow> real list \<Rightarrow> real list" where
  "updateDevex_weight s dPivotWeight alpha iCol w =
     (let devex = dPivotWeight * \<bar>alpha\<bar>;
          devex = devex + real_of_int (devex_index s ! iCol) * 1
      in if w ! iCol < devex then w[iCol := devex] else w)"

definition updateDevex :: "Collab \<Rightarrow> HEkkPrimal \<Rightarrow> HEkkPrimal" where
  "updateDevex c s =
     (let dPivotWeight = devex_pivot_weight c s;
          s = (if devex_weight s ! nat (variable_in s) > bad_devex_weight_factor * dPivotWeight
               then s\<lparr>num_bad_devex_weight := num_bad_devex_weight s + 1\<rparr> else s);
          dPivot = array (col_aq s) ! nat (row_out s);
          dPivotWeight = dPivotWeight / \<bar>dPivot\<bar>;
          s = s\<lparr>devex_weight :=
                  fold (\<lambda>iCol. updateDevex_weight s dPivotWeight (array (row_ap s) ! iCol) iCol)
                    (take (count (row_ap s)) (index (row_ap s))) (devex_weight s)\<rparr>;
          s = s\<lparr>devex_weight :=
                  fold (\<lambda>iRow. updateDevex_weight s dPivotWeight (array (row_ep s) ! iRow)
                                 (iRow + num_col s))
                    (take (count (row_ep s)) (index (row_ep s))) (devex_weight s)\<rparr>;
          s = s\<lparr>devex_weight := (devex_weight s)[nat (variable_out s) := max 1 dPivotWeight]\<rparr>;
          s = s\<lparr>devex_weight := (devex_weight s)[nat (variable_in s) := 1]\<rparr>
      in s\<lparr>num_devex_iterations := num_devex_iterations s + 1\<rparr>)"

text \<open>\<^verbatim>\<open>HEkkPrimal::resetDevex\<close>.\<close>

definition resetDevex :: "HEkkPrimal \<Rightarrow> HEkkPrimal" where
  "resetDevex s =
     hyperChooseColumnClear
       (s\<lparr>devex_weight := replicate (num_tot s) 1,
          devex_index := map (\<lambda>iCol. nonbasicFlag (basis s) ! iCol * nonbasicFlag (basis s) ! iCol)
                           [0..<num_tot s],
          num_devex_iterations := 0,
          num_bad_devex_weight := 0\<rparr>)"

text \<open>
  \<^verbatim>\<open>HEkkPrimal::removeNonbasicFreeColumn\<close>: a failed removal is logged and then fails the
  assertion.
\<close>

definition removeNonbasicFreeColumn :: "HEkkPrimal \<Rightarrow> HEkkPrimal option" where
  "removeNonbasicFreeColumn s =
     (let remove_nonbasic_free_column = (nonbasicMove (basis s) ! nat (variable_in s) = 0) in
      if remove_nonbasic_free_column then
        (case HSet_remove (nat (variable_in s)) (nonbasic_free_col_set s) of
           (removed_nonbasic_free_column, S) \<Rightarrow> do {
             _ \<leftarrow> assert removed_nonbasic_free_column;
             Some (s\<lparr>nonbasic_free_col_set := S\<rparr>)
           })
      else Some s)"

text \<open>
  \<^verbatim>\<open>HEkkPrimal::hyperChooseColumnDualChange\<close>: a dual infeasibility of the leaving column
  fails the assertion in its branch.
\<close>

definition hyperChooseColumnDualChange :: "Collab \<Rightarrow> HEkkPrimal \<Rightarrow> HEkkPrimal option" where
  "hyperChooseColumnDualChange c s =
     (if \<not> use_hyper_chuzc s then Some s
      else do {
        let s = fold changed_col (loop_entries c (row_ap s) (num_col s)) s;
        let s = fold (\<lambda>iRow. changed_col (iRow + num_col s)) (loop_entries c (row_ep s) (num_row s)) s;
        let s = (if HSet_count (nonbasic_free_col_set s) \<noteq> 0
                 then fold changed_free (free_entries s) s else s);
        let iCol = nat (variable_out s);
        let dual_infeasibility = - real_of_int (nonbasicMove (basis s) ! iCol) * workDual (info s) ! iCol;
        if dual_infeasibility > dual_feasibility_tolerance s then do {
          _ \<leftarrow> assert (dual_infeasibility \<le> dual_feasibility_tolerance s);
          Some (hyperChooseColumnChangedInfeasibility dual_infeasibility iCol s)
        } else Some s
      })"

text \<open>
  \<^verbatim>\<open>HEkkPrimal::update\<close>, with its blocks named: \<open>update_flip_start\<close> is the body of its
  first \<^verbatim>\<open>if (flipped)\<close>, \<open>update_primal\<close> the update of the primal values of either
  phase, \<open>update_flip_finish\<close> the body of the second \<^verbatim>\<open>if (flipped)\<close> up to its
  \<^verbatim>\<open>return\<close>, \<open>update_pivot\<close> the part past that return and \<open>update_finish\<close> the end of the
  function from the call of \<^verbatim>\<open>updatePivots\<close> on. In the flip branch the source writes \<^verbatim>\<open>assert(nonbasicMove[variable_in] = move_in)\<close>,
  an assignment: it stores \<^verbatim>\<open>move_in\<close> and fails when \<^verbatim>\<open>move_in\<close> is 0.
\<close>

definition update_finish :: "Collab \<Rightarrow> HEkkPrimal \<Rightarrow> HEkkPrimal option" where
  "update_finish c s =
     (let s = map_ekk (updatePivots c (variable_in s) (row_out s) (move_out s)) s;
          s = (case updateFactor c (col_aq s) (row_ep s) (row_out s) (rebuild_reason s) (ekk_instance s) of
                 (ekk, aq, ep, r, reason) \<Rightarrow>
                   s\<lparr>ekk_instance := ekk, col_aq := aq, row_ep := ep, row_out := r,
                     rebuild_reason := reason\<rparr>);
          s = map_ekk (updateMatrix c (variable_in s) (variable_out s)) s;
          s = (if update_count (info s) \<ge> update_limit (info s)
               then s\<lparr>rebuild_reason := REBUILD_REASON_UPDATE_LIMIT_REACHED\<rparr> else s);
          s = map_ekk (\<lambda>e. e\<lparr>iteration_count := iteration_count e + 1\<rparr>) s;
          s = (if num_bad_devex_weight s > allowed_num_bad_devex_weight c then resetDevex s else s);
          s = map_ekk (\<lambda>e. e\<lparr>total_syntheticTick := total_syntheticTick e + syntheticTick (col_aq s)\<rparr>) s;
          s = map_ekk (\<lambda>e. e\<lparr>total_syntheticTick := total_syntheticTick e + syntheticTick (row_ep s)\<rparr>) s
      in hyperChooseColumn s)"

definition update_pivot :: "Collab \<Rightarrow> HEkkPrimal \<Rightarrow> HEkkPrimal option" where
  "update_pivot c s = do {
     _ \<leftarrow> assert (row_out s \<ge> 0);
     let s = map_info (\<lambda>i. i\<lparr>baseValue := (baseValue i)[nat (row_out s) := value_in s]\<rparr>) s;
     s \<leftarrow> considerInfeasibleValueIn s;
     let s = s\<lparr>theta_dual := workDual (info s) ! nat (variable_in s)\<rparr>;
     s \<leftarrow> updateDual s;
     let s = updateDevex c s;
     s \<leftarrow> removeNonbasicFreeColumn s;
     s \<leftarrow> hyperChooseColumnDualChange c s;
     update_finish c s
   }"

definition update_flip_start :: "HEkkPrimal \<Rightarrow> HEkkPrimal option" where
  "update_flip_start s = do {
     let s = s\<lparr>variable_out := variable_in s, alpha_col := 0, numericalTrouble := 0\<rparr>;
     let s = map_info (\<lambda>i. i\<lparr>workValue := (workValue i)[nat (variable_in s) := value_in s]\<rparr>) s;
     let s = map_basis (\<lambda>b. b\<lparr>nonbasicMove := (nonbasicMove b)[nat (variable_in s) := move_in s]\<rparr>) s;
     _ \<leftarrow> assert (move_in s \<noteq> 0);
     Some (map_basis (\<lambda>b. b\<lparr>nonbasicMove := (nonbasicMove b)[nat (variable_in s) := - move_in s]\<rparr>) s)
   }"

definition update_primal :: "Collab \<Rightarrow> HEkkPrimal \<Rightarrow> HEkkPrimal" where
  "update_primal c s =
     (if solvePhase s = SOLVE_PHASE_1
      then hyperChooseColumnBasicFeasibilityChange c
             (basicFeasibilityChangeUpdateDual c (phase1UpdatePrimal s))
      else phase2UpdatePrimal s)"

definition update_flip_finish :: "HEkkPrimal \<Rightarrow> HEkkPrimal" where
  "update_flip_finish s =
     (let s = map_info (\<lambda>i. i\<lparr>primal_bound_swap := primal_bound_swap i + 1\<rparr>) s;
          s = s\<lparr>num_flip_since_rebuild := num_flip_since_rebuild s + 1\<rparr>
      in map_ekk (\<lambda>e. e\<lparr>total_syntheticTick := total_syntheticTick e + syntheticTick (col_aq s)\<rparr>) s)"

definition update :: "Collab \<Rightarrow> HEkkPrimal \<Rightarrow> HEkkPrimal option" where
  "update c s = do {
     _ \<leftarrow> assert (rebuild_reason s = REBUILD_REASON_NO);
     let flipped = (row_out s < 0);
     s \<leftarrow> (if flipped then update_flip_start s else Some s);
     let s = hyperChooseColumnStart s;
     let s = update_primal c s;
     _ \<leftarrow> assert (rebuild_reason s = REBUILD_REASON_NO
                  \<or> rebuild_reason s = REBUILD_REASON_PRIMAL_INFEASIBLE_IN_PRIMAL_SIMPLEX);
     if flipped then Some (update_flip_finish s) else update_pivot c s
   }"

subsection \<open>One iteration\<close>

text \<open>
  \<^verbatim>\<open>HEkkPrimal::iterate\<close>, in four parts: \<open>iterate_update\<close> is the update at its end,
  \<open>iterate_after_bound_swap\<close> runs from the assessment of the pivot,
  \<open>iterate_after_chuzr\<close> from the bound-swap decision and \<open>iterate_chuzr\<close> from CHUZR.
  The switch of the debug level at \<^verbatim>\<open>check_iter\<close> only reaches the debug checks.
\<close>

definition iterate_update :: "Collab \<Rightarrow> HEkkPrimal \<Rightarrow> HEkkPrimal option" where
  "iterate_update c s = do {
     s \<leftarrow> update c s;
     let s = (if num_primal_infeasibilities (info s) = 0 \<and> solvePhase s = SOLVE_PHASE_1
              then s\<lparr>rebuild_reason := REBUILD_REASON_UPDATE_LIMIT_REACHED\<rparr> else s);
     _ \<leftarrow> assert (rebuild_reason s = REBUILD_REASON_NO
                  \<or> rebuild_reason s = REBUILD_REASON_PRIMAL_INFEASIBLE_IN_PRIMAL_SIMPLEX
                  \<or> rebuild_reason s = REBUILD_REASON_SYNTHETIC_CLOCK_SAYS_INVERT
                  \<or> rebuild_reason s = REBUILD_REASON_UPDATE_LIMIT_REACHED);
     _ \<leftarrow> assert (solvePhase s = SOLVE_PHASE_1 \<or> solvePhase s = SOLVE_PHASE_2);
     Some s
   }"

definition iterate_after_bound_swap :: "Collab \<Rightarrow> HEkkPrimal \<Rightarrow> HEkkPrimal option" where
  "iterate_after_bound_swap c s = do {
     _ \<leftarrow> assert (rebuild_reason s = REBUILD_REASON_NO);
     if row_out s \<ge> 0 then do {
       s \<leftarrow> assessPivot c s;
       if rebuild_reason s \<noteq> REBUILD_REASON_NO then do {
         _ \<leftarrow> assert (rebuild_reason s = REBUILD_REASON_POSSIBLY_SINGULAR_BASIS);
         Some s
       } else iterate_update c s
     } else iterate_update c s
   }"

definition iterate_after_chuzr :: "Collab \<Rightarrow> HEkkPrimal \<Rightarrow> HEkkPrimal option" where
  "iterate_after_chuzr c s = do {
     _ \<leftarrow> assert (rebuild_reason s = REBUILD_REASON_NO);
     s \<leftarrow> considerBoundSwap c s;
     if rebuild_reason s = REBUILD_REASON_POSSIBLY_PRIMAL_UNBOUNDED then Some s
     else iterate_after_bound_swap c s
   }"

definition iterate_chuzr :: "Collab \<Rightarrow> HEkkPrimal \<Rightarrow> HEkkPrimal option" where
  "iterate_chuzr c s =
     (if solvePhase s = SOLVE_PHASE_1 then
        let s = phase1ChooseRow c s in
        if row_out s < 0 then Some (s\<lparr>solvePhase := SOLVE_PHASE_ERROR\<rparr>)
        else iterate_after_chuzr c s
      else iterate_after_chuzr c (chooseRow s))"


subsection \<open>Initialisation, the set of nonbasic free columns, cleanup and the end of phase 2\<close>




text \<open>\<^verbatim>\<open>HEkkPrimal::cleanup\<close>.\<close>

definition cleanup :: "Collab \<Rightarrow> HEkkPrimal \<Rightarrow> HEkkPrimal" where
  "cleanup c s =
     (let s = map_ekk (initialiseBound c) s;
          s = map_ekk (initialiseNonbasicWorkValue c) s;
          s = map_info (\<lambda>i. i\<lparr>allow_bound_perturbation := False\<rparr>) s;
          s = map_ekk (computePrimal c) s;
          s = map_ekk (computeSimplexPrimalInfeasible c) s;
          s = map_ekk (computePrimalObjectiveValue c) s;
          s = map_info (\<lambda>i. i\<lparr>updated_primal_objective_value := primal_objective_value i\<rparr>) s
      in map_ekk (computeSimplexDualInfeasible c) s)"

text \<open>
  The end of \<^verbatim>\<open>HEkkPrimal::solvePhase2\<close>, after its main loop (from the assertion that the
  solve is not bailing out to the end of the function).
\<close>

definition solvePhase2_conclude :: "Collab \<Rightarrow> HEkkPrimal \<Rightarrow> HEkkPrimal option" where
  "solvePhase2_conclude c s = do {
     _ \<leftarrow> assert (\<not> solve_bailout (ekk_instance s));
     if \<not> debugPrimalSimplex_ok c ''End of solvePhase2'' s
     then Some (s\<lparr>solvePhase := SOLVE_PHASE_ERROR\<rparr>)
     else if solvePhase s = SOLVE_PHASE_1 then Some s
     else if variable_in s = - 1 then
       let s = cleanup c s in
       if num_primal_infeasibilities (info s) > 0
       then Some (s\<lparr>solvePhase := SOLVE_PHASE_CLEANUP\<rparr>)
       else Some (map_ekk (computeDualObjectiveValue c)
                   (map_ekk (\<lambda>e. e\<lparr>scaled_model_status := OPTIMAL\<rparr>)
                      (s\<lparr>solvePhase := SOLVE_PHASE_OPTIMAL\<rparr>)))
     else do {
       _ \<leftarrow> assert (row_out s < 0);
       s \<leftarrow> (if bounds_perturbed (info s) then Some (cleanup c s)
             else do {
               let s = s\<lparr>solvePhase := SOLVE_PHASE_EXIT\<rparr>;
               if scaled_model_status (ekk_instance s) = PRIMAL_INFEASIBLE then do {
                 _ \<leftarrow> assert False;
                 Some (map_ekk (\<lambda>e. e\<lparr>scaled_model_status := PRIMAL_DUAL_INFEASIBLE\<rparr>) s)
               } else do {
                 _ \<leftarrow> assert (scaled_model_status (ekk_instance s) = NOTSET);
                 Some (map_ekk (\<lambda>e. e\<lparr>scaled_model_status := PRIMAL_UNBOUNDED\<rparr>) s)
               }
             });
       Some (map_ekk (\<lambda>e. e\<lparr>scaled_model_status := PRIMAL_UNBOUNDED\<rparr>) s)
     }
   }"

subsection \<open>Frames\<close>

text \<open>
  What an update leaves alone is stated by erasing what it may write: \<open>erase_phase1\<close>
  erases what the primal update of phase 1 writes, \<open>erase_phase2\<close> what the one of phase 2
  writes. \<open>flip_core\<close> is the state a bound flip produces apart from those fields.
\<close>

definition erase_phase1 :: "HEkkPrimal \<Rightarrow> HEkkPrimal" where
  "erase_phase1 s =
     (map_info (\<lambda>i. i\<lparr>baseValue := [], workCost := [], workDual := [],
                        num_primal_infeasibilities := 0\<rparr>) s)
       \<lparr>col_basic_feasibility_change := HVector_setup 0,
        row_basic_feasibility_change := HVector_setup 0,
        max_changed_measure_value := 0, max_changed_measure_column := 0,
        max_hyper_chuzc_non_candidate_measure := 0\<rparr>"

definition erase_phase2 :: "HEkkPrimal \<Rightarrow> HEkkPrimal" where
  "erase_phase2 s =
     (map_info (\<lambda>i. i\<lparr>baseValue := [], num_primal_infeasibilities := 0,
                        updated_primal_objective_value := 0\<rparr>) s)
       \<lparr>rebuild_reason := REBUILD_REASON_NO\<rparr>"

definition flip_core :: "HEkkPrimal \<Rightarrow> HEkkPrimal" where
  "flip_core s =
     (let q = nat (variable_in s) in
      s\<lparr>variable_out := variable_in s, alpha_col := 0, numericalTrouble := 0,
        max_changed_measure_value := 0, max_changed_measure_column := - 1,
        done_next_chuzc := False,
        num_flip_since_rebuild := num_flip_since_rebuild s + 1,
        ekk_instance := (ekk_instance s)
          \<lparr>simplex_basis := (basis s)\<lparr>nonbasicMove := (nonbasicMove (basis s))[q := - move_in s]\<rparr>,
           simplex_info := (info s)\<lparr>workValue := (workValue (info s))[q := value_in s],
                                    primal_bound_swap := primal_bound_swap (info s) + 1\<rparr>,
           total_syntheticTick := total_syntheticTick (ekk_instance s) + syntheticTick (col_aq s)\<rparr>\<rparr>)"

text \<open>
  \<open>frames P m Q\<close>: whenever the computation \<open>m\<close> returns a state, its projection \<open>P\<close> is \<open>Q\<close>.
\<close>

definition frames :: "('a \<Rightarrow> 'b) \<Rightarrow> 'a option \<Rightarrow> 'b \<Rightarrow> bool" where
  "frames P m Q = (case m of None \<Rightarrow> True | Some t \<Rightarrow> P t = Q)"

subsection \<open>The invariant of the full scan\<close>


subsection \<open>A small instance\<close>

text \<open>
  One structural column \<open>x\<close> with bounds \<open>[0, 5]\<close> and cost \<open>-1\<close>, nonbasic at its lower
  bound, and one row whose slack, with bounds \<open>[0, 10]\<close>, is basic at the value 3; the
  basis matrix is the identity and the column of \<open>x\<close> is the unit vector. The
  collaborators return what they compute on this instance.
\<close>

definition lp1_collab :: Collab where
  "lp1_collab =
     \<lparr>HIGHS_CONST_INF = 10 ^ 200,
      max_num_hyper_chuzc_candidates = 2,
      allowed_num_bad_devex_weight = 3,
      debugPrimalSimplex_ok = (\<lambda>msg s. True),
      pivotColumnFtran = (\<lambda>e q v. v\<lparr>count := 1, index := [0], array := [1]\<rparr>),
      dualValueSignOk = (\<lambda>e d q v. True),
      unitBtran = (\<lambda>e r v. v\<lparr>count := 1, index := [0], array := [1]\<rparr>),
      tableauRowPrice = (\<lambda>e ep v. v\<lparr>count := 1, index := [0], array := [1]\<rparr>),
      sparseLoopStyle = (\<lambda>n m. False),
      factor_btran = (\<lambda>e v. v),
      choosePriceTechnique = (\<lambda>e d. (True, False)),
      priceByColumn = (\<lambda>e r v. r\<lparr>count := 1, index := [0], array := [array v ! 0]\<rparr>),
      priceByRowSparseResultWithSwitch = (\<lambda>e r v. r),
      priceByRowSparseResult = (\<lambda>e r v. r),
      updatePivots = (\<lambda>q r m e. e),
      updateFactor = (\<lambda>aq ep r reason e. (e, aq, ep, r, reason)),
      updateMatrix = (\<lambda>q v e. e),
      initialiseBound = (\<lambda>e. e\<lparr>simplex_info := (simplex_info e)\<lparr>bounds_perturbed := False\<rparr>\<rparr>),
      initialiseNonbasicWorkValue = (\<lambda>e. e),
      computePrimal = (\<lambda>e. e),
      computeSimplexPrimalInfeasible = (\<lambda>e. e),
      computePrimalObjectiveValue = (\<lambda>e. e),
      computeSimplexDualInfeasible = (\<lambda>e. e),
      computeDualObjectiveValue = (\<lambda>e. e)\<rparr>"

definition lp1_vector :: HVector where
  "lp1_vector = \<lparr>count = 1, index = [0], array = [1], syntheticTick = 0\<rparr>"

definition lp1_state :: HEkkPrimal where
  "lp1_state =
     \<lparr>ekk_instance =
        \<lparr>simplex_basis = \<lparr>basicIndex = [1], nonbasicFlag = [1, 0], nonbasicMove = [1, 0]\<rparr>,
         simplex_info =
           \<lparr>workLower = [0, 0], workUpper = [5, 10], workValue = [0, 0], workCost = [- 1, 0],
            workDual = [- 1, 0], workLowerShift = [0, 0], workUpperShift = [0, 0],
            numTotRandomValue = [1 / 2, 1 / 4], baseLower = [0], baseUpper = [10], baseValue = [3],
            num_primal_infeasibilities = 0, update_count = 0, update_limit = 5000,
            primal_bound_swap = 0, bounds_perturbed = False, allow_bound_perturbation = True,
            primal_objective_value = 0, updated_primal_objective_value = 0\<rparr>,
         factor = undefined, numCol = 1, numRow = 1,
         options_primal_feasibility_tolerance = 1 / 10 ^ 7,
         options_dual_feasibility_tolerance = 1 / 10 ^ 7,
         iteration_count = 0, scaled_model_status = NOTSET, solve_bailout = False,
         has_primal_objective_value = False, has_dual_objective_value = False,
         total_syntheticTick = 0\<rparr>,
      num_col = 1, num_row = 1, num_tot = 2,
      primal_feasibility_tolerance = 1 / 10 ^ 7, dual_feasibility_tolerance = 1 / 10 ^ 7,
      solvePhase = SOLVE_PHASE_2, rebuild_reason = REBUILD_REASON_NO,
      variable_in = 0, row_out = - 1, variable_out = - 1, move_in = 1, move_out = 0,
      theta_dual = - 1, theta_primal = 0, value_in = 0, alpha_col = 0, alpha_row = 0,
      numericalTrouble = 0,
      col_aq = lp1_vector, row_ep = lp1_vector, row_ap = lp1_vector,
      col_basic_feasibility_change = lp1_vector, row_basic_feasibility_change = lp1_vector,
      ph1SorterR = [], ph1SorterT = [],
      devex_weight = [1, 1], devex_index = [1, 0], num_devex_iterations = 0,
      num_bad_devex_weight = 0, num_free_col = 0, nonbasic_free_col_set = [],
      use_hyper_chuzc = False, initialise_hyper_chuzc = False, done_next_chuzc = False,
      max_changed_measure_value = 0, max_changed_measure_column = - 1,
      max_hyper_chuzc_non_candidate_measure = - 1, num_hyper_chuzc_candidates = 0,
      hyper_chuzc_candidate = [0, 0, 0], hyper_chuzc_measure = [0, 0, 0],
      num_flip_since_rebuild = 0\<rparr>"

text \<open>
  The instance with the pivotal column empty (after FTRAN no row has an entry), the instance
  at the assessment of a pivot on row 0 after one update, and the collaborators with a
  row price that returns the pivot value \<open>a\<close>.
\<close>

definition lp1_no_ratio :: HEkkPrimal where
  "lp1_no_ratio = lp1_state\<lparr>col_aq := lp1_vector\<lparr>count := 0\<rparr>\<rparr>"

definition lp1_pivot :: HEkkPrimal where
  "lp1_pivot = map_info (\<lambda>i. i\<lparr>update_count := 1\<rparr>) (lp1_state\<lparr>row_out := 0\<rparr>)"

definition lp1_row_price :: "real \<Rightarrow> Collab" where
  "lp1_row_price a =
     lp1_collab\<lparr>tableauRowPrice := (\<lambda>e ep v. v\<lparr>count := 1, index := [0], array := [a]\<rparr>)\<rparr>"

text \<open>
  The instance with the upper bound of \<open>x\<close> at 2: the ratio test of phase 2 finds row 0,
  with a step of 3, which takes \<open>x\<close> beyond its upper bound.
\<close>

definition lp1_short :: HEkkPrimal where
  "lp1_short = map_info (\<lambda>i. i\<lparr>workUpper := [2, 10]\<rparr>) lp1_state"






text \<open>
  An instance at the Devex update of a pivot: two structural columns and one row, whose
  slack (variable 2) is basic and leaves; column 0 enters with the pivot value 2 and is
  not in the reference set; the pivot row has the entries 2 and 3 in the structural
  columns and 1 in the slack. The saved weight of the entering column is 4. \<open>lp2_bad\<close> is
  the same state with four bad weights counted.
\<close>

definition lp2_state :: HEkkPrimal where
  "lp2_state =
     (map_ekk (\<lambda>e. e\<lparr>numCol := 2,
        simplex_basis := \<lparr>basicIndex = [2], nonbasicFlag = [1, 1, 0], nonbasicMove = [1, 1, 0]\<rparr>\<rparr>)
        lp1_state)
       \<lparr>num_col := 2, num_tot := 3, variable_in := 0, row_out := 0, variable_out := 2,
        alpha_col := 2, alpha_row := 2,
        col_aq := \<lparr>count = 1, index = [0], array = [2], syntheticTick = 0\<rparr>,
        row_ep := \<lparr>count = 1, index = [0], array = [1], syntheticTick = 0\<rparr>,
        row_ap := \<lparr>count = 2, index = [0, 1], array = [2, 3], syntheticTick = 0\<rparr>,
        devex_weight := [4, 1, 1], devex_index := [0, 1, 1]\<rparr>"

definition lp2_bad :: HEkkPrimal where
  "lp2_bad = lp2_state\<lparr>num_bad_devex_weight := 4\<rparr>"



section \<open>Results\<close>

subsection \<open>Auxiliary lemmas: frames\<close>

lemma fold_frame:
  assumes "\<And>x s. P (f x s) = P s"
  shows "P (fold f xs s) = P s"
  using assms by (induction xs arbitrary: s) simp_all

lemma let_state: "\<lbrakk>P a = Q; \<And>x. P x = Q \<Longrightarrow> P (f x) = Q\<rbrakk> \<Longrightarrow> P (Let a f) = Q"
  by simp

lemma let_value: "(\<And>x. P (f x) = Q) \<Longrightarrow> P (Let a f) = Q"
  by simp

lemma if_frame: "\<lbrakk>P a = Q; P b = Q\<rbrakk> \<Longrightarrow> P (if c then a else b) = Q"
  by simp

lemma framesD: "frames P m Q \<Longrightarrow> m = Some t \<Longrightarrow> P t = Q"
  by (simp add: frames_def)

lemma frames_Some: "P a = Q \<Longrightarrow> frames P (Some a) Q"
  by (simp add: frames_def)

lemma frames_None: "frames P None Q"
  by (simp add: frames_def)

lemma frames_bind:
  "\<lbrakk>frames P m Q; \<And>x. P x = Q \<Longrightarrow> frames P (f x) Q\<rbrakk> \<Longrightarrow> frames P (Option.bind m f) Q"
  by (cases m) (simp_all add: frames_def)

lemma frames_bind_value: "(\<And>x. frames P (f x) Q) \<Longrightarrow> frames P (Option.bind m f) Q"
  by (cases m) (simp_all add: frames_def)

lemma frames_let_state:
  "\<lbrakk>P a = Q; \<And>x. P x = Q \<Longrightarrow> frames P (f x) Q\<rbrakk> \<Longrightarrow> frames P (Let a f) Q"
  by simp

lemma frames_let_value: "(\<And>x. frames P (f x) Q) \<Longrightarrow> frames P (Let a f) Q"
  by simp

lemma frames_if: "\<lbrakk>frames P a Q; frames P b Q\<rbrakk> \<Longrightarrow> frames P (if c then a else b) Q"
  by simp

lemma frames_case_prod: "(\<And>a b. frames P (f a b) Q) \<Longrightarrow> frames P (case p of (a, b) \<Rightarrow> f a b) Q"
  by (cases p) simp

lemma erase_phase1_upd [simp]:
  "erase_phase1 (map_info (\<lambda>i. i\<lparr>baseValue := b\<rparr>) s) = erase_phase1 s"
  "erase_phase1 (map_info (\<lambda>i. i\<lparr>workCost := b\<rparr>) s) = erase_phase1 s"
  "erase_phase1 (map_info (\<lambda>i. i\<lparr>workDual := b\<rparr>) s) = erase_phase1 s"
  "erase_phase1 (map_info (\<lambda>i. i\<lparr>num_primal_infeasibilities := n\<rparr>) s) = erase_phase1 s"
  "erase_phase1 (s\<lparr>col_basic_feasibility_change := v\<rparr>) = erase_phase1 s"
  "erase_phase1 (s\<lparr>row_basic_feasibility_change := v\<rparr>) = erase_phase1 s"
  "erase_phase1 (s\<lparr>max_changed_measure_value := x\<rparr>) = erase_phase1 s"
  "erase_phase1 (s\<lparr>max_changed_measure_column := k\<rparr>) = erase_phase1 s"
  "erase_phase1 (s\<lparr>max_hyper_chuzc_non_candidate_measure := x\<rparr>) = erase_phase1 s"
  by (simp_all add: erase_phase1_def)

lemma erase_phase2_upd [simp]:
  "erase_phase2 (map_info (\<lambda>i. i\<lparr>baseValue := b\<rparr>) s) = erase_phase2 s"
  "erase_phase2 (map_info (\<lambda>i. i\<lparr>num_primal_infeasibilities := n\<rparr>) s) = erase_phase2 s"
  "erase_phase2 (map_info (\<lambda>i. i\<lparr>updated_primal_objective_value := x\<rparr>) s) = erase_phase2 s"
  "erase_phase2 (s\<lparr>rebuild_reason := r\<rparr>) = erase_phase2 s"
  by (simp_all add: erase_phase2_def)

lemma erase_phase1_changed:
  "erase_phase1 (hyperChooseColumnChangedInfeasibility d iCol s) = erase_phase1 s"
  by (simp add: hyperChooseColumnChangedInfeasibility_def)

lemma erase_phase1_changed_col: "erase_phase1 (changed_col iCol s) = erase_phase1 s"
  by (simp add: changed_col_def Let_def erase_phase1_changed)

lemma erase_phase1_changed_free: "erase_phase1 (changed_free iCol s) = erase_phase1 s"
  by (simp add: changed_free_def Let_def erase_phase1_changed)

lemma erase_phase1_entry: "erase_phase1 (phase1UpdatePrimal_entry iRow s) = erase_phase1 s"
  unfolding phase1UpdatePrimal_entry_def
  by ((rule let_state [where P = erase_phase1] | rule let_value [where P = erase_phase1]
        | rule if_frame [where P = erase_phase1] | simp)+)

lemma erase_phase1_primal: "erase_phase1 (phase1UpdatePrimal s) = erase_phase1 s"
  unfolding phase1UpdatePrimal_def
  by (subst fold_frame [where P = erase_phase1, OF erase_phase1_entry]) simp

lemma erase_phase1_price: "erase_phase1 (basicFeasibilityChangePrice c s) = erase_phase1 s"
  unfolding basicFeasibilityChangePrice_def
  by ((rule let_state [where P = erase_phase1] | rule let_value [where P = erase_phase1]
        | rule if_frame [where P = erase_phase1] | simp)+)

lemma erase_phase1_dual: "erase_phase1 (basicFeasibilityChangeUpdateDual c s) = erase_phase1 s"
  unfolding basicFeasibilityChangeUpdateDual_def
  by ((rule let_state [where P = erase_phase1] | rule let_value [where P = erase_phase1]
        | rule if_frame [where P = erase_phase1]
        | simp add: erase_phase1_price basicFeasibilityChangeBtran_def)+)

lemma erase_phase1_hyper:
  "erase_phase1 (hyperChooseColumnBasicFeasibilityChange c s) = erase_phase1 s"
  unfolding hyperChooseColumnBasicFeasibilityChange_def
  by ((rule let_state [where P = erase_phase1] | rule let_value [where P = erase_phase1]
        | rule if_frame [where P = erase_phase1]
        | simp add: fold_frame [where P = erase_phase1] erase_phase1_changed_col
            erase_phase1_changed_free)+)

lemma erase_phase2_entry:
  "erase_phase2 (fst (phase2UpdatePrimal_entry iRow sp)) = erase_phase2 (fst sp)"
  by (simp add: phase2UpdatePrimal_entry_def Let_def erase_phase2_def)

lemma rebuild_phase2_entry:
  "rebuild_reason (fst (phase2UpdatePrimal_entry iRow sp)) = rebuild_reason (fst sp)"
  by (simp add: phase2UpdatePrimal_entry_def Let_def)

lemma erase_phase2_primal: "erase_phase2 (phase2UpdatePrimal s) = erase_phase2 s"
proof -
  have "erase_phase2 (fst (fold phase2UpdatePrimal_entry xs sp)) = erase_phase2 (fst sp)" for xs sp
    by (rule fold_frame [where P = "\<lambda>sp. erase_phase2 (fst sp)"]) (rule erase_phase2_entry)
  from this [of "take (count (col_aq s)) (index (col_aq s))" "(s, False)"]
  show ?thesis
    by (simp add: phase2UpdatePrimal_def Let_def)
qed

lemma rebuild_phase2_primal:
  "rebuild_reason (phase2UpdatePrimal s) = rebuild_reason s
   \<or> rebuild_reason (phase2UpdatePrimal s) = REBUILD_REASON_PRIMAL_INFEASIBLE_IN_PRIMAL_SIMPLEX"
proof -
  have "rebuild_reason (fst (fold phase2UpdatePrimal_entry xs sp)) = rebuild_reason (fst sp)" for xs sp
    by (rule fold_frame [where P = "\<lambda>sp. rebuild_reason (fst sp)"]) (rule rebuild_phase2_entry)
  from this [of "take (count (col_aq s)) (index (col_aq s))" "(s, False)"]
  show ?thesis
    by (simp add: phase2UpdatePrimal_def Let_def)
qed

lemma rebuild_erase_phase1: "erase_phase1 a = erase_phase1 b \<Longrightarrow> rebuild_reason a = rebuild_reason b"
  by (drule arg_cong [where f = rebuild_reason]) (simp add: erase_phase1_def)


lemma flip_start_finish:
  "move_in s \<noteq> 0 \<Longrightarrow>
   \<exists>t. update_flip_start s = Some t \<and> update_flip_finish (hyperChooseColumnStart t) = flip_core s
       \<and> solvePhase t = solvePhase s \<and> rebuild_reason t = rebuild_reason s"
  by (simp add: update_flip_start_def update_flip_finish_def flip_core_def assert_def
      hyperChooseColumnStart_def Let_def)

lemma erase_phase1_finish: "erase_phase1 (update_flip_finish a) = update_flip_finish (erase_phase1 a)"
  by (simp add: update_flip_finish_def erase_phase1_def Let_def)

lemma erase_phase2_finish: "erase_phase2 (update_flip_finish a) = update_flip_finish (erase_phase2 a)"
  by (simp add: update_flip_finish_def erase_phase2_def Let_def)

lemma rebuild_flip_finish: "rebuild_reason (update_flip_finish a) = rebuild_reason a"
  by (simp add: update_flip_finish_def Let_def)

lemma erase_phase1_update_primal:
  "solvePhase s = SOLVE_PHASE_1 \<Longrightarrow> erase_phase1 (update_primal c s) = erase_phase1 s"
  by (simp add: update_primal_def erase_phase1_hyper erase_phase1_dual erase_phase1_primal)

lemma erase_phase2_update_primal:
  "solvePhase s \<noteq> SOLVE_PHASE_1 \<Longrightarrow> erase_phase2 (update_primal c s) = erase_phase2 s"
  by (simp add: update_primal_def erase_phase2_primal)

lemma update_flip:
  assumes "row_out s < 0" and "rebuild_reason s = REBUILD_REASON_NO" and "move_in s \<noteq> 0"
  shows "\<exists>s'. update c s = Some s'
          \<and> (if solvePhase s = SOLVE_PHASE_1
               then erase_phase1 s' = erase_phase1 (flip_core s)
                    \<and> rebuild_reason s' = REBUILD_REASON_NO
               else erase_phase2 s' = erase_phase2 (flip_core s)
                    \<and> (rebuild_reason s' = REBUILD_REASON_NO
                         \<or> rebuild_reason s' = REBUILD_REASON_PRIMAL_INFEASIBLE_IN_PRIMAL_SIMPLEX))"
proof -
  from flip_start_finish [OF assms(3)] obtain t0 where
    t0: "update_flip_start s = Some t0"
    and tc: "update_flip_finish (hyperChooseColumnStart t0) = flip_core s"
    and tp0: "solvePhase t0 = solvePhase s" and tr0: "rebuild_reason t0 = rebuild_reason s"
    by blast
  define t where "t = hyperChooseColumnStart t0"
  have tp: "solvePhase t = solvePhase s" and tr: "rebuild_reason t = REBUILD_REASON_NO"
    using assms(2) tp0 tr0 by (simp_all add: t_def hyperChooseColumnStart_def)
  define u where "u = update_primal c t"
  have upd: "update c s = (if rebuild_reason u = REBUILD_REASON_NO
                  \<or> rebuild_reason u = REBUILD_REASON_PRIMAL_INFEASIBLE_IN_PRIMAL_SIMPLEX
               then Some (update_flip_finish u) else None)"
    using assms t0
    by (simp add: update_def assert_def Let_def t_def u_def)
  show ?thesis
  proof (cases "solvePhase s = SOLVE_PHASE_1")
    case True
    have eu: "erase_phase1 u = erase_phase1 t"
      using True tp by (simp add: u_def erase_phase1_update_primal)
    have ru: "rebuild_reason u = REBUILD_REASON_NO"
      using rebuild_erase_phase1 [OF eu] tr by simp
    have "erase_phase1 (update_flip_finish u) = erase_phase1 (flip_core s)"
      by (simp add: erase_phase1_finish eu tc [symmetric] t_def)
    then show ?thesis
      using True ru by (simp add: upd rebuild_flip_finish)
  next
    case False
    have eu: "erase_phase2 u = erase_phase2 t"
      using False tp by (simp add: u_def erase_phase2_update_primal)
    have ru: "rebuild_reason u = REBUILD_REASON_NO
              \<or> rebuild_reason u = REBUILD_REASON_PRIMAL_INFEASIBLE_IN_PRIMAL_SIMPLEX"
      using rebuild_phase2_primal [of t] False tp tr by (simp add: u_def update_primal_def)
    have "erase_phase2 (update_flip_finish u) = erase_phase2 (flip_core s)"
      by (simp add: erase_phase2_finish eu tc [symmetric] t_def)
    then show ?thesis
      using False ru by (simp add: upd rebuild_flip_finish)
  qed
qed

lemma erase_phase1_fields:
  assumes "erase_phase1 a = erase_phase1 b"
  shows "basis a = basis b" and "workValue (info a) = workValue (info b)"
    and "workLower (info a) = workLower (info b)" and "workUpper (info a) = workUpper (info b)"
    and "primal_bound_swap (info a) = primal_bound_swap (info b)"
    and "update_count (info a) = update_count (info b)"
    and "factor (ekk_instance a) = factor (ekk_instance b)"
    and "iteration_count (ekk_instance a) = iteration_count (ekk_instance b)"
    and "devex_weight a = devex_weight b" and "devex_index a = devex_index b"
    and "num_flip_since_rebuild a = num_flip_since_rebuild b"
    and "row_out a = row_out b" and "solvePhase a = solvePhase b"
    and "nonbasic_free_col_set a = nonbasic_free_col_set b" and "num_free_col a = num_free_col b"
proof -
  have "(\<lambda>s. (basis s, workValue (info s), workLower (info s), workUpper (info s),
          primal_bound_swap (info s), update_count (info s), factor (ekk_instance s),
          iteration_count (ekk_instance s), devex_weight s, devex_index s,
          num_flip_since_rebuild s, row_out s, solvePhase s, nonbasic_free_col_set s,
          num_free_col s)) (erase_phase1 a)
      = (\<lambda>s. (basis s, workValue (info s), workLower (info s), workUpper (info s),
          primal_bound_swap (info s), update_count (info s), factor (ekk_instance s),
          iteration_count (ekk_instance s), devex_weight s, devex_index s,
          num_flip_since_rebuild s, row_out s, solvePhase s, nonbasic_free_col_set s,
          num_free_col s)) (erase_phase1 b)"
    using assms by (rule arg_cong)
  then show "basis a = basis b" and "workValue (info a) = workValue (info b)"
    and "workLower (info a) = workLower (info b)" and "workUpper (info a) = workUpper (info b)"
    and "primal_bound_swap (info a) = primal_bound_swap (info b)"
    and "update_count (info a) = update_count (info b)"
    and "factor (ekk_instance a) = factor (ekk_instance b)"
    and "iteration_count (ekk_instance a) = iteration_count (ekk_instance b)"
    and "devex_weight a = devex_weight b" and "devex_index a = devex_index b"
    and "num_flip_since_rebuild a = num_flip_since_rebuild b"
    and "row_out a = row_out b" and "solvePhase a = solvePhase b"
    and "nonbasic_free_col_set a = nonbasic_free_col_set b" and "num_free_col a = num_free_col b"
    by (simp_all add: erase_phase1_def)
qed

lemma erase_phase2_fields:
  assumes "erase_phase2 a = erase_phase2 b"
  shows "basis a = basis b" and "workValue (info a) = workValue (info b)"
    and "workLower (info a) = workLower (info b)" and "workUpper (info a) = workUpper (info b)"
    and "primal_bound_swap (info a) = primal_bound_swap (info b)"
    and "update_count (info a) = update_count (info b)"
    and "factor (ekk_instance a) = factor (ekk_instance b)"
    and "iteration_count (ekk_instance a) = iteration_count (ekk_instance b)"
    and "devex_weight a = devex_weight b" and "devex_index a = devex_index b"
    and "num_flip_since_rebuild a = num_flip_since_rebuild b"
    and "row_out a = row_out b" and "solvePhase a = solvePhase b"
    and "nonbasic_free_col_set a = nonbasic_free_col_set b" and "num_free_col a = num_free_col b"
    and "workDual (info a) = workDual (info b)" and "workCost (info a) = workCost (info b)"
proof -
  have "(\<lambda>s. (basis s, workValue (info s), workLower (info s), workUpper (info s),
          primal_bound_swap (info s), update_count (info s), factor (ekk_instance s),
          iteration_count (ekk_instance s), devex_weight s, devex_index s,
          num_flip_since_rebuild s, row_out s, solvePhase s, nonbasic_free_col_set s,
          num_free_col s, workDual (info s), workCost (info s))) (erase_phase2 a)
      = (\<lambda>s. (basis s, workValue (info s), workLower (info s), workUpper (info s),
          primal_bound_swap (info s), update_count (info s), factor (ekk_instance s),
          iteration_count (ekk_instance s), devex_weight s, devex_index s,
          num_flip_since_rebuild s, row_out s, solvePhase s, nonbasic_free_col_set s,
          num_free_col s, workDual (info s), workCost (info s))) (erase_phase2 b)"
    using assms by (rule arg_cong)
  then show "basis a = basis b" and "workValue (info a) = workValue (info b)"
    and "workLower (info a) = workLower (info b)" and "workUpper (info a) = workUpper (info b)"
    and "primal_bound_swap (info a) = primal_bound_swap (info b)"
    and "update_count (info a) = update_count (info b)"
    and "factor (ekk_instance a) = factor (ekk_instance b)"
    and "iteration_count (ekk_instance a) = iteration_count (ekk_instance b)"
    and "devex_weight a = devex_weight b" and "devex_index a = devex_index b"
    and "num_flip_since_rebuild a = num_flip_since_rebuild b"
    and "row_out a = row_out b" and "solvePhase a = solvePhase b"
    and "nonbasic_free_col_set a = nonbasic_free_col_set b" and "num_free_col a = num_free_col b"
    and "workDual (info a) = workDual (info b)" and "workCost (info a) = workCost (info b)"
    by (simp_all add: erase_phase2_def)
qed

text \<open>What a bound flip does, in either phase.\<close>

lemma update_flip_fields:
  assumes "row_out s < 0" and "rebuild_reason s = REBUILD_REASON_NO" and "move_in s \<noteq> 0"
  shows "\<exists>s'. update c s = Some s'
          \<and> nonbasicMove (basis s') = (nonbasicMove (basis s))[nat (variable_in s) := - move_in s]
          \<and> workValue (info s') = (workValue (info s))[nat (variable_in s) := value_in s]
          \<and> primal_bound_swap (info s') = primal_bound_swap (info s) + 1
          \<and> num_flip_since_rebuild s' = num_flip_since_rebuild s + 1
          \<and> basicIndex (basis s') = basicIndex (basis s)
          \<and> nonbasicFlag (basis s') = nonbasicFlag (basis s)
          \<and> factor (ekk_instance s') = factor (ekk_instance s)
          \<and> update_count (info s') = update_count (info s)
          \<and> iteration_count (ekk_instance s') = iteration_count (ekk_instance s)
          \<and> devex_weight s' = devex_weight s \<and> devex_index s' = devex_index s
          \<and> workLower (info s') = workLower (info s) \<and> workUpper (info s') = workUpper (info s)
          \<and> nonbasic_free_col_set s' = nonbasic_free_col_set s \<and> num_free_col s' = num_free_col s
          \<and> row_out s' = row_out s \<and> solvePhase s' = solvePhase s
          \<and> (solvePhase s \<noteq> SOLVE_PHASE_1 \<longrightarrow>
                workDual (info s') = workDual (info s) \<and> workCost (info s') = workCost (info s))
          \<and> (rebuild_reason s' = REBUILD_REASON_NO
               \<or> rebuild_reason s' = REBUILD_REASON_PRIMAL_INFEASIBLE_IN_PRIMAL_SIMPLEX)"
proof -
  from update_flip [OF assms, of c] obtain s' where
    u: "update c s = Some s'"
    and e: "if solvePhase s = SOLVE_PHASE_1
            then erase_phase1 s' = erase_phase1 (flip_core s)
                 \<and> rebuild_reason s' = REBUILD_REASON_NO
            else erase_phase2 s' = erase_phase2 (flip_core s)
                 \<and> (rebuild_reason s' = REBUILD_REASON_NO
                      \<or> rebuild_reason s' = REBUILD_REASON_PRIMAL_INFEASIBLE_IN_PRIMAL_SIMPLEX)"
    by blast
  show ?thesis
  proof (cases "solvePhase s = SOLVE_PHASE_1")
    case True
    with e have e1: "erase_phase1 s' = erase_phase1 (flip_core s)"
      and r: "rebuild_reason s' = REBUILD_REASON_NO" by simp_all
    from erase_phase1_fields [OF e1] u r True show ?thesis
      by (simp add: flip_core_def Let_def)
  next
    case False
    with e have e2: "erase_phase2 s' = erase_phase2 (flip_core s)"
      and r: "rebuild_reason s' = REBUILD_REASON_NO
              \<or> rebuild_reason s' = REBUILD_REASON_PRIMAL_INFEASIBLE_IN_PRIMAL_SIMPLEX" by simp_all
    from erase_phase2_fields [OF e2] u r False show ?thesis
      by (simp add: flip_core_def Let_def)
  qed
qed

lemma considerBoundSwap_step_frames:
  "frames (\<lambda>s. (ekk_instance s, variable_in s, move_in s, rebuild_reason s, solvePhase s,
                 row_out s, num_flip_since_rebuild s, primal_feasibility_tolerance s, col_aq s))
     (considerBoundSwap_step c s)
     (ekk_instance s, variable_in s, move_in s, rebuild_reason s, solvePhase s,
      row_out s, num_flip_since_rebuild s, primal_feasibility_tolerance s, col_aq s)"
  unfolding considerBoundSwap_step_def
  by ((rule frames_Some | rule frames_bind_value | rule frames_if
        | rule frames_let_state
            [where P = "\<lambda>s. (ekk_instance s, variable_in s, move_in s, rebuild_reason s,
                 solvePhase s, row_out s, num_flip_since_rebuild s,
                 primal_feasibility_tolerance s, col_aq s)"]
        | simp)+)

lemma considerBoundSwap_step_frame:
  assumes "considerBoundSwap_step c s = Some t"
  shows "ekk_instance t = ekk_instance s" and "variable_in t = variable_in s"
    and "move_in t = move_in s" and "rebuild_reason t = rebuild_reason s"
    and "solvePhase t = solvePhase s" and "row_out t = row_out s"
    and "num_flip_since_rebuild t = num_flip_since_rebuild s"
    and "primal_feasibility_tolerance t = primal_feasibility_tolerance s"
    and "col_aq t = col_aq s"
  using framesD [OF considerBoundSwap_step_frames assms] by simp_all

lemma considerBoundSwap_flip_flipped:
  assumes "considerBoundSwap_flipped c t"
  shows "considerBoundSwap_flip c t =
           t\<lparr>row_out := - 1,
             value_in := (if move_in t > 0 then workUpper (info t) ! nat (variable_in t)
                          else workLower (info t) ! nat (variable_in t)),
             theta_primal := (if move_in t > 0
                              then inf_add c (workUpper (info t) ! nat (variable_in t))
                                     (- workLower (info t) ! nat (variable_in t))
                              else inf_add c (workLower (info t) ! nat (variable_in t))
                                     (- workUpper (info t) ! nat (variable_in t)))\<rparr>"
  using assms
  by (simp add: considerBoundSwap_flipped_def considerBoundSwap_flip_def Let_def)

lemma iterate_update_flip:
  assumes "row_out s < 0" and "rebuild_reason s = REBUILD_REASON_NO" and "move_in s \<noteq> 0"
    and "solvePhase s = SOLVE_PHASE_1 \<or> solvePhase s = SOLVE_PHASE_2"
    and "update c s = Some u"
    and "solvePhase u = solvePhase s"
    and "rebuild_reason u = REBUILD_REASON_NO
          \<or> rebuild_reason u = REBUILD_REASON_PRIMAL_INFEASIBLE_IN_PRIMAL_SIMPLEX"
  shows "iterate_update c s =
           Some (u\<lparr>rebuild_reason :=
                     (if num_primal_infeasibilities (info u) = 0 \<and> solvePhase u = SOLVE_PHASE_1
                      then REBUILD_REASON_UPDATE_LIMIT_REACHED else rebuild_reason u)\<rparr>)"
  using assms by (auto simp: iterate_update_def assert_def Let_def)

lemma chooseRow_eq: "\<exists>r. chooseRow s = s\<lparr>row_out := r\<rparr>"
  unfolding chooseRow_def Let_def by (rule exI) (rule refl)

lemma considerBoundSwap_flip_not_flipped:
  assumes "\<not> considerBoundSwap_flipped c t"
  shows "considerBoundSwap_flip c t
           = t\<lparr>value_in := inf_add c (workValue (info t) ! nat (variable_in t)) (theta_primal t)\<rparr>"
proof (cases "move_in t > 0")
  case True
  with assms show ?thesis
    by (simp add: considerBoundSwap_flipped_def considerBoundSwap_flip_def Let_def)
next
  case False
  with assms show ?thesis
    by (simp add: considerBoundSwap_flipped_def considerBoundSwap_flip_def Let_def)
qed

lemma considerBoundSwap_unbounded:
  assumes "considerBoundSwap_step c s = Some t" and "\<not> considerBoundSwap_flipped c t"
    and "solvePhase t = SOLVE_PHASE_2" and "row_out t < 0"
  shows "considerBoundSwap c s
           = Some (t\<lparr>value_in := inf_add c (workValue (info t) ! nat (variable_in t)) (theta_primal t),
                    rebuild_reason := REBUILD_REASON_POSSIBLY_PRIMAL_UNBOUNDED\<rparr>)"
proof -
  define u where "u = considerBoundSwap_flip c t"
  have u: "u = t\<lparr>value_in := inf_add c (workValue (info t) ! nat (variable_in t)) (theta_primal t)\<rparr>"
    unfolding u_def by (rule considerBoundSwap_flip_not_flipped [OF assms(2)])
  have uf: "solvePhase u = SOLVE_PHASE_2" "row_out u < 0"
    using assms(3,4) by (simp_all add: u)
  have "considerBoundSwap c s = Some (u\<lparr>rebuild_reason := REBUILD_REASON_POSSIBLY_PRIMAL_UNBOUNDED\<rparr>)"
    using assms(1,2) uf by (simp add: considerBoundSwap_def Let_def u_def [symmetric])
  then show ?thesis by (simp add: u)
qed

lemma considerBoundSwap_flips:
  assumes "considerBoundSwap_step c s = Some t" and "considerBoundSwap_flipped c t"
  shows "considerBoundSwap c s = Some (considerBoundSwap_flip c t)"
    and "row_out (considerBoundSwap_flip c t) = - 1"
proof -
  define u where "u = considerBoundSwap_flip c t"
  show r: "row_out (considerBoundSwap_flip c t) = - 1"
    by (simp add: considerBoundSwap_flip_flipped [OF assms(2)])
  then have "row_out u = - 1" by (simp add: u_def)
  then show "considerBoundSwap c s = Some (considerBoundSwap_flip c t)"
    using assms by (simp add: considerBoundSwap_def assert_def Let_def u_def [symmetric])
qed

lemma iterate_after_chuzr_flip:
  assumes "rebuild_reason s = REBUILD_REASON_NO" and "considerBoundSwap c s = Some s2"
    and "row_out s2 < 0" and "rebuild_reason s2 = REBUILD_REASON_NO"
  shows "iterate_after_chuzr c s = iterate_update c s2"
  using assms by (simp add: iterate_after_chuzr_def iterate_after_bound_swap_def assert_def)

lemma phase2_no_row:
  assumes "solvePhase s = SOLVE_PHASE_2" and "row_out s < 0"
    and "rebuild_reason s = REBUILD_REASON_NO" and "move_in s \<noteq> 0"
  shows "\<exists>s'. iterate_after_chuzr c s = Some s' \<and> solvePhase s' = SOLVE_PHASE_2"
proof -
  define t where "t = s\<lparr>theta_primal := real_of_int (move_in s) * HIGHS_CONST_INF c, move_out := 0\<rparr>"
  have st: "considerBoundSwap_step c s = Some t"
    using assms(1,2) by (simp add: considerBoundSwap_step_def assert_def t_def)
  have tf: "solvePhase t = SOLVE_PHASE_2" "row_out t < 0" "rebuild_reason t = REBUILD_REASON_NO"
    "move_in t \<noteq> 0"
    using assms by (simp_all add: t_def)
  show ?thesis
  proof (cases "considerBoundSwap_flipped c t")
    case True
    define s2 where "s2 = considerBoundSwap_flip c t"
    have s2: "row_out s2 < 0" "rebuild_reason s2 = REBUILD_REASON_NO" "move_in s2 \<noteq> 0"
      "solvePhase s2 = SOLVE_PHASE_2"
      using tf by (simp_all add: s2_def considerBoundSwap_flip_flipped [OF True])
    have cbs: "considerBoundSwap c s = Some s2"
      unfolding s2_def by (rule considerBoundSwap_flips(1) [OF st True])
    from update_flip_fields [OF s2(1,2,3), of c] obtain u where
      u: "update c s2 = Some u" and up: "solvePhase u = solvePhase s2"
      and ur: "rebuild_reason u = REBUILD_REASON_NO
        \<or> rebuild_reason u = REBUILD_REASON_PRIMAL_INFEASIBLE_IN_PRIMAL_SIMPLEX"
      by blast
    have "solvePhase s2 = SOLVE_PHASE_1 \<or> solvePhase s2 = SOLVE_PHASE_2" using s2(4) by simp
    from iterate_update_flip [OF s2(1,2,3) this u up ur] obtain r where
      iu: "iterate_update c s2 = Some (u\<lparr>rebuild_reason := r\<rparr>)" by simp
    have "iterate_after_chuzr c s = Some (u\<lparr>rebuild_reason := r\<rparr>)"
      using iterate_after_chuzr_flip [OF assms(3) cbs s2(1,2)] iu by simp
    then show ?thesis using up s2(4) by simp
  next
    case False
    have "considerBoundSwap c s
           = Some (t\<lparr>value_in := inf_add c (workValue (info t) ! nat (variable_in t)) (theta_primal t),
                    rebuild_reason := REBUILD_REASON_POSSIBLY_PRIMAL_UNBOUNDED\<rparr>)"
      by (rule considerBoundSwap_unbounded [OF st False tf(1,2)])
    then show ?thesis
      using assms(3) tf by (simp add: iterate_after_chuzr_def assert_def)
  qed
qed

lemma updateVerify_eq:
  "updateVerify s =
     (let a_row = (if variable_in s < int (num_col s) then array (row_ap s) ! nat (variable_in s)
                   else array (row_ep s) ! nat (variable_in s - int (num_col s)));
          tr = updateVerify_measure (alpha_col s) a_row;
          t = s\<lparr>alpha_row := a_row, numericalTrouble := tr\<rparr>
      in if alpha_col s \<noteq> 0 \<and> a_row \<noteq> 0 \<and> tr < 1 / 10 ^ 3
         then Some (if tr > 1 / 10 ^ 7 \<and> update_count (info s) > 0
                    then t\<lparr>rebuild_reason := REBUILD_REASON_POSSIBLY_SINGULAR_BASIS\<rparr> else t)
         else None)"
  by (cases "variable_in s < int (num_col s)")
     (simp_all add: updateVerify_def assert_def Let_def)

lemma assessPivot_eq:
  assumes "row_out s \<ge> 0"
  shows "assessPivot c s =
    updateVerify (s\<lparr>alpha_col := array (col_aq s) ! nat (row_out s),
       variable_out := int (basicIndex (basis s) ! nat (row_out s)),
       row_ep := unitBtran c (ekk_instance s) (row_out s) (row_ep s),
       row_ap := tableauRowPrice c (ekk_instance s)
                   (unitBtran c (ekk_instance s) (row_out s) (row_ep s)) (row_ap s)\<rparr>)"
  using assms by (simp add: assessPivot_def assert_def Let_def)

subsection \<open>C8: the bound shift\<close>

text \<open>
  A call that rounds nowhere: the value 0 violates the lower bound 1, the tolerance is
  \<open>2^-23\<close> and the random value \<open>1/2\<close>. The shift is \<open>1 + 3 * 2^-24\<close>, it is added to
  \<open>sum_shift\<close>, and the new bound lies \<open>(1 + r) * tol = 3 * 2^-24\<close> below the value.
\<close>

lemma shiftBound_exact_call:
  "shiftBound True 0 (1 / 2) (1 / 2 ^ 23) 1 0 = Some (- (3 / 2 ^ 24), 1 + 3 / 2 ^ 24)"
  by code_simp

text \<open>
  C8. The round trip of \<open>shiftBound\<close> does not hold for every call in which the value
  violates the bound by more than the tolerance. Take the lower bound 0, the value
  \<open>-2^30\<close>, the tolerance \<open>2^-23\<close> and the random value \<open>1/2\<close>, all of them doubles. The
  infeasibility is \<open>2^30\<close> and \<open>(1 + r) * tol = 3 * 2^-24\<close>; their sum is not a double and
  the shift is rounded to \<open>2^30 + 2^-22\<close>. The new bound then lies \<open>2^-22\<close> beyond the value,
  not \<open>3 * 2^-24\<close>: the error is \<open>2^-24\<close>, far above \<open>1e-12\<close>, and the call fails the last
  assertion of the function.
\<close>

theorem shiftBound_rounds_shift:
  "- (2 ^ 30) < fl (0 - 1 / 2 ^ 23)
   \<and> fl (fl (1 + 1 / 2) * (1 / 2 ^ 23)) = 3 / 2 ^ 24
   \<and> fl (fl (0 - - (2 ^ 30)) + 3 / 2 ^ 24) = 2 ^ 30 + 1 / 2 ^ 22
   \<and> \<bar>fl (- fl (fl (0 - (2 ^ 30 + 1 / 2 ^ 22)) - - (2 ^ 30)) - 3 / 2 ^ 24)\<bar> = 1 / 2 ^ 24
   \<and> \<not> 1 / 2 ^ 24 < fl (1 / 10 ^ 12)
   \<and> shiftBound True (- (2 ^ 30)) (1 / 2) (1 / 2 ^ 23) 0 0 = None"
  by code_simp

subsection \<open>C5: the bound flip of the entering variable\<close>

text \<open>
  C5. Take an iteration at the bound-swap decision (no rebuild reason pending, phase 1 or
  2, a move direction of the entering variable \<open>q\<close> that is not 0, the two counters below
  the largest \<^verbatim>\<open>int\<close>) whose primal step passes its assertions. If the would-be value of
  \<open>q\<close> lies beyond its opposite bound by more than the primal feasibility tolerance
  (\<open>considerBoundSwap_flipped\<close>), the rest of the iteration returns with \<open>row_out = -1\<close>, in
  phase 2 as well as in phase 1 and whatever row the ratio test had chosen, with
  \<open>nonbasic_move[q] = - move_in\<close>, \<open>work_value[q]\<close> at the opposite bound, and
  \<open>primal_bound_swap\<close> and \<open>num_flip_since_rebuild\<close> each incremented by one; there is no
  pivot: the basis and the iteration count are as before.
\<close>

theorem bound_swap_flips_entering:
  assumes "rebuild_reason s = REBUILD_REASON_NO"
    and "solvePhase s = SOLVE_PHASE_1 \<or> solvePhase s = SOLVE_PHASE_2"
    and "move_in s \<noteq> 0"
    and "0 \<le> variable_in s"
    and "nat (variable_in s) < length (workValue (info s))"
    and "nat (variable_in s) < length (nonbasicMove (basis s))"
    and "primal_bound_swap (info s) < 2 ^ 31 - 1"
    and "num_flip_since_rebuild s < 2 ^ 31 - 1"
    and "considerBoundSwap_step c s = Some t"
    and "considerBoundSwap_flipped c t"
  shows "\<exists>s'. iterate_after_chuzr c s = Some s'
           \<and> row_out s' = - 1
           \<and> nonbasicMove (basis s') ! nat (variable_in s) = - move_in s
           \<and> workValue (info s') ! nat (variable_in s)
               = (if move_in s > 0 then workUpper (info s) ! nat (variable_in s)
                  else workLower (info s) ! nat (variable_in s))
           \<and> primal_bound_swap (info s') = primal_bound_swap (info s) + 1
           \<and> primal_bound_swap (info s') \<le> 2 ^ 31 - 1
           \<and> num_flip_since_rebuild s' = num_flip_since_rebuild s + 1
           \<and> num_flip_since_rebuild s' \<le> 2 ^ 31 - 1
           \<and> basicIndex (basis s') = basicIndex (basis s)
           \<and> nonbasicFlag (basis s') = nonbasicFlag (basis s)
           \<and> iteration_count (ekk_instance s') = iteration_count (ekk_instance s)"
proof -
  note tf = considerBoundSwap_step_frame [OF assms(9)]
  define s2 where "s2 = considerBoundSwap_flip c t"
  have s2: "s2 = t\<lparr>row_out := - 1,
             value_in := (if move_in t > 0 then workUpper (info t) ! nat (variable_in t)
                          else workLower (info t) ! nat (variable_in t)),
             theta_primal := (if move_in t > 0
                              then inf_add c (workUpper (info t) ! nat (variable_in t))
                                     (- workLower (info t) ! nat (variable_in t))
                              else inf_add c (workLower (info t) ! nat (variable_in t))
                                     (- workUpper (info t) ! nat (variable_in t)))\<rparr>"
    unfolding s2_def by (rule considerBoundSwap_flip_flipped [OF assms(10)])
  have cbs: "considerBoundSwap c s = Some s2"
    unfolding s2_def by (rule considerBoundSwap_flips(1) [OF assms(9,10)])
  have r2: "row_out s2 < 0" "rebuild_reason s2 = REBUILD_REASON_NO" "move_in s2 \<noteq> 0"
    "solvePhase s2 = SOLVE_PHASE_1 \<or> solvePhase s2 = SOLVE_PHASE_2"
    using assms(1,2,3) tf by (simp_all add: s2)
  from update_flip_fields [OF r2(1,2,3), of c] obtain u where
    u: "update c s2 = Some u"
    and uf: "nonbasicMove (basis u) = (nonbasicMove (basis s2))[nat (variable_in s2) := - move_in s2]"
      "workValue (info u) = (workValue (info s2))[nat (variable_in s2) := value_in s2]"
      "primal_bound_swap (info u) = primal_bound_swap (info s2) + 1"
      "num_flip_since_rebuild u = num_flip_since_rebuild s2 + 1"
      "basicIndex (basis u) = basicIndex (basis s2)"
      "nonbasicFlag (basis u) = nonbasicFlag (basis s2)"
      "iteration_count (ekk_instance u) = iteration_count (ekk_instance s2)"
      "row_out u = row_out s2" "solvePhase u = solvePhase s2"
      "rebuild_reason u = REBUILD_REASON_NO
        \<or> rebuild_reason u = REBUILD_REASON_PRIMAL_INFEASIBLE_IN_PRIMAL_SIMPLEX"
    by blast
  from iterate_update_flip [OF r2 u uf(9,10)] obtain r where
    iu: "iterate_update c s2 = Some (u\<lparr>rebuild_reason := r\<rparr>)" by simp
  have "iterate_after_chuzr c s = Some (u\<lparr>rebuild_reason := r\<rparr>)"
    using iterate_after_chuzr_flip [OF assms(1) cbs r2(1,2)] iu by simp
  moreover have "row_out u = - 1" using uf(8) by (simp add: s2)
  moreover have "nonbasicMove (basis u) ! nat (variable_in s) = - move_in s"
    using uf(1) assms(6) tf by (simp add: s2)
  moreover have "workValue (info u) ! nat (variable_in s)
               = (if move_in s > 0 then workUpper (info s) ! nat (variable_in s)
                  else workLower (info s) ! nat (variable_in s))"
    using uf(2) assms(5) tf by (simp add: s2)
  moreover have "primal_bound_swap (info u) = primal_bound_swap (info s) + 1"
    "num_flip_since_rebuild u = num_flip_since_rebuild s + 1"
    "basicIndex (basis u) = basicIndex (basis s)"
    "nonbasicFlag (basis u) = nonbasicFlag (basis s)"
    "iteration_count (ekk_instance u) = iteration_count (ekk_instance s)"
    using uf(3-7) tf by (simp_all add: s2)
  ultimately show ?thesis using assms(7,8) by simp
qed

text \<open>
  On the instance \<open>lp1_short\<close> the ratio test of phase 2 chooses row 0; the step to its bound
  is 3 and takes \<open>x\<close> to 3, beyond its upper bound 2: the iteration flips \<open>x\<close> to 2 and
  ends with \<open>row_out = -1\<close>.
\<close>

theorem bound_swap_flips_entering_witness:
  "chooseRow lp1_short = lp1_short\<lparr>row_out := 0\<rparr>
   \<and> considerBoundSwap_step lp1_collab (lp1_short\<lparr>row_out := 0\<rparr>)
       = Some (lp1_short\<lparr>row_out := 0, alpha_col := 1, move_out := - 1, theta_primal := 3\<rparr>)
   \<and> considerBoundSwap_flipped lp1_collab
        (lp1_short\<lparr>row_out := 0, alpha_col := 1, move_out := - 1, theta_primal := 3\<rparr>)
   \<and> (\<exists>s'. iterate_chuzr lp1_collab lp1_short = Some s'
           \<and> row_out s' = - 1
           \<and> nonbasicMove (basis s') ! 0 = - 1
           \<and> workValue (info s') ! 0 = 2
           \<and> primal_bound_swap (info s') = 1
           \<and> num_flip_since_rebuild s' = 1
           \<and> basicIndex (basis s') = [1])"
proof -
  define s where "s = lp1_short\<lparr>row_out := 0\<rparr>"
  define t where "t = lp1_short\<lparr>row_out := 0, alpha_col := 1, move_out := - 1, theta_primal := 3\<rparr>"
  have h0: "chooseRow lp1_short = s"
    by (simp add: s_def chooseRow_def chooseRow_pass1_def chooseRow_pass2_def pivot_tolerance_def
        lp1_short_def lp1_state_def lp1_vector_def Let_def)
  have h1: "considerBoundSwap_step lp1_collab s = Some t"
    by (simp add: s_def t_def considerBoundSwap_step_def assert_def lp1_short_def lp1_state_def
        lp1_vector_def lp1_collab_def)
  have h2: "considerBoundSwap_flipped lp1_collab t"
    by (simp add: t_def considerBoundSwap_flipped_def inf_add_def Let_def lp1_short_def
        lp1_state_def lp1_collab_def)
  have f: "rebuild_reason s = REBUILD_REASON_NO" "solvePhase s = SOLVE_PHASE_2"
    "move_in s = 1" "variable_in s = 0" "workValue (info s) = [0, 0]"
    "nonbasicMove (basis s) = [1, 0]" "workUpper (info s) = [2, 10]"
    "primal_bound_swap (info s) = 0" "num_flip_since_rebuild s = 0"
    "basicIndex (basis s) = [1]" "solvePhase lp1_short = SOLVE_PHASE_2"
    by (simp_all add: s_def lp1_short_def lp1_state_def)
  have "\<exists>s'. iterate_after_chuzr lp1_collab s = Some s'
           \<and> row_out s' = - 1
           \<and> nonbasicMove (basis s') ! nat (variable_in s) = - move_in s
           \<and> workValue (info s') ! nat (variable_in s)
               = (if move_in s > 0 then workUpper (info s) ! nat (variable_in s)
                  else workLower (info s) ! nat (variable_in s))
           \<and> primal_bound_swap (info s') = primal_bound_swap (info s) + 1
           \<and> primal_bound_swap (info s') \<le> 2 ^ 31 - 1
           \<and> num_flip_since_rebuild s' = num_flip_since_rebuild s + 1
           \<and> num_flip_since_rebuild s' \<le> 2 ^ 31 - 1
           \<and> basicIndex (basis s') = basicIndex (basis s)
           \<and> nonbasicFlag (basis s') = nonbasicFlag (basis s)
           \<and> iteration_count (ekk_instance s') = iteration_count (ekk_instance s)"
    by (rule bound_swap_flips_entering [OF _ _ _ _ _ _ _ _ h1 h2]) (simp_all add: f)
  moreover have "iterate_chuzr lp1_collab lp1_short = iterate_after_chuzr lp1_collab s"
    by (simp add: iterate_chuzr_def f h0)
  ultimately have "chooseRow lp1_short = s
     \<and> considerBoundSwap_step lp1_collab s = Some t
     \<and> considerBoundSwap_flipped lp1_collab t
     \<and> (\<exists>s'. iterate_chuzr lp1_collab lp1_short = Some s'
           \<and> row_out s' = - 1
           \<and> nonbasicMove (basis s') ! 0 = - 1
           \<and> workValue (info s') ! 0 = 2
           \<and> primal_bound_swap (info s') = 1
           \<and> num_flip_since_rebuild s' = 1
           \<and> basicIndex (basis s') = [1])"
    using h0 h1 h2 by (auto simp: f)
  then show ?thesis
    unfolding s_def t_def .
qed

subsection \<open>C9: an empty ratio test in phase 1\<close>

text \<open>
  C9. If the ratio test of phase 1 builds an empty list R, it reports \<open>row_out = -1\<close> (and
  \<open>variable_out = -1\<close>). In phase 1 the iteration treats a negative \<open>row_out\<close> from the
  ratio test as an error: it stops there with \<open>solvePhase = SOLVE_PHASE_ERROR\<close>, and the
  bound-swap decision, had it been reached with a negative \<open>row_out\<close> outside phase 2,
  fails its assertion. In phase 2 a negative \<open>row_out\<close> from the ratio test is a valid
  outcome: the iteration goes on and returns in phase 2.
\<close>

theorem phase1_empty_ratio_test_is_error:
  "(ph1SorterR (phase1ChooseRow_collect c s) = [] \<longrightarrow>
      row_out (phase1ChooseRow c s) = - 1 \<and> variable_out (phase1ChooseRow c s) = - 1)
   \<and> (solvePhase s = SOLVE_PHASE_1 \<and> row_out (phase1ChooseRow c s) < 0 \<longrightarrow>
        iterate_chuzr c s = Some ((phase1ChooseRow c s)\<lparr>solvePhase := SOLVE_PHASE_ERROR\<rparr>))
   \<and> (solvePhase s \<noteq> SOLVE_PHASE_2 \<and> row_out s < 0 \<longrightarrow> considerBoundSwap c s = None)
   \<and> (solvePhase s = SOLVE_PHASE_2 \<and> row_out (chooseRow s) < 0
        \<and> rebuild_reason s = REBUILD_REASON_NO \<and> move_in s \<noteq> 0 \<longrightarrow>
        (\<exists>s'. iterate_chuzr c s = Some s' \<and> solvePhase s' = SOLVE_PHASE_2))"
proof -
  have 1: "row_out (phase1ChooseRow c s) = - 1 \<and> variable_out (phase1ChooseRow c s) = - 1"
    if "ph1SorterR (phase1ChooseRow_collect c s) = []"
    using that by (simp add: phase1ChooseRow_def Let_def)
  have 2: "iterate_chuzr c s = Some ((phase1ChooseRow c s)\<lparr>solvePhase := SOLVE_PHASE_ERROR\<rparr>)"
    if "solvePhase s = SOLVE_PHASE_1 \<and> row_out (phase1ChooseRow c s) < 0"
    using that by (simp add: iterate_chuzr_def Let_def)
  have 3: "considerBoundSwap c s = None" if "solvePhase s \<noteq> SOLVE_PHASE_2 \<and> row_out s < 0"
    using that by (simp add: considerBoundSwap_def considerBoundSwap_step_def assert_def)
  have 4: "\<exists>s'. iterate_chuzr c s = Some s' \<and> solvePhase s' = SOLVE_PHASE_2"
    if a: "solvePhase s = SOLVE_PHASE_2 \<and> row_out (chooseRow s) < 0
        \<and> rebuild_reason s = REBUILD_REASON_NO \<and> move_in s \<noteq> 0"
  proof -
    obtain r where r: "chooseRow s = s\<lparr>row_out := r\<rparr>"
      using chooseRow_eq by blast
    have "\<exists>s'. iterate_after_chuzr c (chooseRow s) = Some s' \<and> solvePhase s' = SOLVE_PHASE_2"
      by (rule phase2_no_row) (use a r in simp_all)
    then show ?thesis
      using a by (simp add: iterate_chuzr_def)
  qed
  from 1 2 3 4 show ?thesis by blast
qed

theorem phase1_empty_ratio_test_is_error_witness:
  "ph1SorterR (phase1ChooseRow_collect lp1_collab (lp1_no_ratio\<lparr>solvePhase := SOLVE_PHASE_1\<rparr>)) = []
   \<and> row_out (phase1ChooseRow lp1_collab (lp1_no_ratio\<lparr>solvePhase := SOLVE_PHASE_1\<rparr>)) = - 1
   \<and> (\<exists>s'. iterate_chuzr lp1_collab (lp1_no_ratio\<lparr>solvePhase := SOLVE_PHASE_1\<rparr>) = Some s'
          \<and> solvePhase s' = SOLVE_PHASE_ERROR \<and> row_out s' = - 1)
   \<and> considerBoundSwap lp1_collab (lp1_no_ratio\<lparr>solvePhase := SOLVE_PHASE_1\<rparr>) = None
   \<and> row_out (chooseRow lp1_no_ratio) = - 1
   \<and> (\<exists>s'. iterate_chuzr lp1_collab lp1_no_ratio = Some s' \<and> solvePhase s' = SOLVE_PHASE_2)"
proof -
  define s1 where "s1 = lp1_no_ratio\<lparr>solvePhase := SOLVE_PHASE_1\<rparr>"
  have h1: "ph1SorterR (phase1ChooseRow_collect lp1_collab s1) = []"
    by (simp add: s1_def phase1ChooseRow_collect_def lp1_no_ratio_def lp1_state_def lp1_vector_def)
  have h4: "row_out (chooseRow lp1_no_ratio) = - 1"
    by (simp add: chooseRow_def lp1_no_ratio_def lp1_state_def lp1_vector_def)
  have f: "solvePhase s1 = SOLVE_PHASE_1" "row_out s1 = - 1"
    "solvePhase lp1_no_ratio = SOLVE_PHASE_2" "rebuild_reason lp1_no_ratio = REBUILD_REASON_NO"
    "move_in lp1_no_ratio = 1"
    by (simp_all add: s1_def lp1_no_ratio_def lp1_state_def)
  show ?thesis
    unfolding s1_def [symmetric]
    using phase1_empty_ratio_test_is_error [of lp1_collab s1]
      phase1_empty_ratio_test_is_error [of lp1_collab lp1_no_ratio] h1 h4
    by (simp add: f)
qed

subsection \<open>C6: the assessment of the pivot\<close>

text \<open>
  C6. For a pivot on row \<open>row_out\<close>, with \<open>alpha_col\<close> the entry of the pivotal column and
  \<open>alpha_row\<close> read from \<open>row_ap[q]\<close> if \<open>q\<close> is structural and from \<open>row_ep[q - num_col]\<close>
  if it is a slack, the numerical trouble is
  \<open>||alpha_col| - |alpha_row|| / min(|alpha_col|, |alpha_row|)\<close>. When it is below \<open>1e-3\<close>
  the assessment returns with these values; when moreover it is above \<open>1e-7\<close> and
  \<open>update_count > 0\<close>, the rest of the iteration sets
  \<open>rebuild_reason = POSSIBLY_SINGULAR_BASIS\<close> and returns without any update: the whole
  solver instance (primal and dual values, basis, factor and its update count, iteration
  count) and the Devex weights are as before. A trouble of \<open>1e-3\<close> or more (or a zero pivot
  value, for which the quotient is not finite) fails the assertion of \<open>updateVerify\<close>.
\<close>

theorem pivot_assessment:
  fixes c s
  defines "a_col \<equiv> array (col_aq s) ! nat (row_out s)"
    and "ep \<equiv> unitBtran c (ekk_instance s) (row_out s) (row_ep s)"
  defines "ap \<equiv> tableauRowPrice c (ekk_instance s) ep (row_ap s)"
  defines "a_row \<equiv> (if variable_in s < int (num_col s) then array ap ! nat (variable_in s)
                     else array ep ! nat (variable_in s - int (num_col s)))"
  defines "trouble \<equiv> updateVerify_measure a_col a_row"
  defines "assessed \<equiv> s\<lparr>alpha_col := a_col, variable_out := int (basicIndex (basis s) ! nat (row_out s)),
                          row_ep := ep, row_ap := ap, alpha_row := a_row, numericalTrouble := trouble\<rparr>"
  assumes "row_out s \<ge> 0" and "rebuild_reason s = REBUILD_REASON_NO"
  shows "trouble = abs (\<bar>a_col\<bar> - \<bar>a_row\<bar>) / min \<bar>a_col\<bar> \<bar>a_row\<bar>
       \<and> (a_col \<noteq> 0 \<and> a_row \<noteq> 0 \<and> trouble < 1 / 10 ^ 3 \<longrightarrow>
            (\<exists>s'. assessPivot c s = Some s' \<and> numericalTrouble s' = trouble
                   \<and> alpha_col s' = a_col \<and> alpha_row s' = a_row))
       \<and> (a_col \<noteq> 0 \<and> a_row \<noteq> 0 \<and> trouble < 1 / 10 ^ 3 \<and> trouble > 1 / 10 ^ 7
              \<and> update_count (info s) > 0 \<longrightarrow>
            iterate_after_bound_swap c s
              = Some (assessed\<lparr>rebuild_reason := REBUILD_REASON_POSSIBLY_SINGULAR_BASIS\<rparr>)
            \<and> ekk_instance (assessed\<lparr>rebuild_reason := REBUILD_REASON_POSSIBLY_SINGULAR_BASIS\<rparr>)
                = ekk_instance s
            \<and> devex_weight (assessed\<lparr>rebuild_reason := REBUILD_REASON_POSSIBLY_SINGULAR_BASIS\<rparr>)
                = devex_weight s)
       \<and> (a_col = 0 \<or> a_row = 0 \<or> trouble \<ge> 1 / 10 ^ 3 \<longrightarrow>
            assessPivot c s = None \<and> iterate_after_bound_swap c s = None)"
proof -
  have tr: "trouble = abs (\<bar>a_col\<bar> - \<bar>a_row\<bar>) / min \<bar>a_col\<bar> \<bar>a_row\<bar>"
    unfolding trouble_def updateVerify_measure_def Let_def by (rule refl)
  define ok where "ok \<longleftrightarrow> a_col \<noteq> 0 \<and> a_row \<noteq> 0 \<and> trouble < 1 / 10 ^ 3"
  define big where "big \<longleftrightarrow> trouble > 1 / 10 ^ 7 \<and> update_count (info s) > 0"
  define pre where "pre = s\<lparr>alpha_col := a_col,
       variable_out := int (basicIndex (basis s) ! nat (row_out s)), row_ep := ep, row_ap := ap\<rparr>"
  have ap1: "assessPivot c s = updateVerify pre"
    unfolding pre_def a_col_def ep_def ap_def by (rule assessPivot_eq [OF assms(7)])
  have pf: "variable_in pre = variable_in s" "num_col pre = num_col s" "row_ap pre = ap"
    "row_ep pre = ep" "alpha_col pre = a_col" "update_count (info pre) = update_count (info s)"
    by (simp_all add: pre_def)
  have arow: "(if variable_in pre < int (num_col pre) then array (row_ap pre) ! nat (variable_in pre)
               else array (row_ep pre) ! nat (variable_in pre - int (num_col pre))) = a_row"
    unfolding pf a_row_def by (rule refl)
  have asd: "pre\<lparr>alpha_row := a_row, numericalTrouble := trouble\<rparr> = assessed"
    by (simp add: pre_def assessed_def)
  have uv: "updateVerify pre =
      (if ok then Some (if big
                        then assessed\<lparr>rebuild_reason := REBUILD_REASON_POSSIBLY_SINGULAR_BASIS\<rparr>
                        else assessed)
       else None)"
    unfolding updateVerify_eq Let_def arow pf(5,6) trouble_def [symmetric] asd ok_def big_def
    by (rule refl)
  note ap_eq = ap1 [unfolded uv]
  have 1: "\<exists>s'. assessPivot c s = Some s' \<and> numericalTrouble s' = trouble
                   \<and> alpha_col s' = a_col \<and> alpha_row s' = a_row" if ok
    using that by (simp add: ap_eq assessed_def)
  have 2: "iterate_after_bound_swap c s
              = Some (assessed\<lparr>rebuild_reason := REBUILD_REASON_POSSIBLY_SINGULAR_BASIS\<rparr>)"
    if ok and big
    using that assms(7,8) by (simp add: iterate_after_bound_swap_def assert_def ap_eq)
  have 3: "ekk_instance (assessed\<lparr>rebuild_reason := REBUILD_REASON_POSSIBLY_SINGULAR_BASIS\<rparr>)
                = ekk_instance s"
    "devex_weight (assessed\<lparr>rebuild_reason := REBUILD_REASON_POSSIBLY_SINGULAR_BASIS\<rparr>)
                = devex_weight s"
    by (simp_all add: assessed_def)
  have 4: "assessPivot c s = None \<and> iterate_after_bound_swap c s = None" if "\<not> ok"
    using that assms(7,8) by (simp add: iterate_after_bound_swap_def assert_def ap_eq)
  have nok: "\<not> ok" if "a_col = 0 \<or> a_row = 0 \<or> trouble \<ge> 1 / 10 ^ 3"
    using that unfolding ok_def by linarith
  show ?thesis
    using tr 1 2 3 4 nok unfolding ok_def big_def by blast
qed

theorem pivot_assessment_witness:
  "(\<exists>s'. assessPivot (lp1_row_price 1) lp1_pivot = Some s' \<and> numericalTrouble s' = 0)
   \<and> (\<exists>s'. iterate_after_bound_swap (lp1_row_price (100001 / 100000)) lp1_pivot = Some s'
          \<and> rebuild_reason s' = REBUILD_REASON_POSSIBLY_SINGULAR_BASIS
          \<and> numericalTrouble s' = 1 / 10 ^ 5
          \<and> ekk_instance s' = ekk_instance lp1_pivot \<and> devex_weight s' = devex_weight lp1_pivot)
   \<and> assessPivot (lp1_row_price 2) lp1_pivot = None
   \<and> iterate_after_bound_swap (lp1_row_price 2) lp1_pivot = None"
proof -
  have f: "row_out lp1_pivot = 0" "rebuild_reason lp1_pivot = REBUILD_REASON_NO"
    "array (col_aq lp1_pivot) ! 0 = 1" "variable_in lp1_pivot = 0" "num_col lp1_pivot = 1"
    "update_count (info lp1_pivot) = 1"
    by (simp_all add: lp1_pivot_def lp1_state_def lp1_vector_def)
  have g: "\<And>a e ep v. array (tableauRowPrice (lp1_row_price a) e ep v) ! 0 = a"
    by (simp add: lp1_row_price_def lp1_collab_def)
  have m: "updateVerify_measure 1 1 = 0" "updateVerify_measure 1 (100001 / 100000) = 1 / 10 ^ 5"
    "updateVerify_measure 1 2 = 1"
    by (simp_all add: updateVerify_measure_def)
  show ?thesis
    using pivot_assessment [of lp1_pivot "lp1_row_price 1"]
      pivot_assessment [of lp1_pivot "lp1_row_price (100001 / 100000)"]
      pivot_assessment [of lp1_pivot "lp1_row_price 2"]
    by (auto simp add: f g m)
qed

subsection \<open>C3: the end of phase 2 with no leaving row\<close>

text \<open>
  C3. When phase 2 ends with an entering variable and no leaving row, and the bounds have
  not been perturbed (the model status being unset), \<open>solvePhase2\<close> sets
  \<open>scaled_model_status = PRIMAL_UNBOUNDED\<close> and \<open>solvePhase = SOLVE_PHASE_EXIT\<close>. When the
  bounds have been perturbed it runs \<open>cleanup\<close> and leaves \<open>solvePhase\<close> to it, but the last
  statement of the function still sets \<open>scaled_model_status = PRIMAL_UNBOUNDED\<close>: the status
  is reported in that case too.
\<close>

theorem phase2_no_row_status:
  assumes "\<not> solve_bailout (ekk_instance s)"
    and "debugPrimalSimplex_ok c ''End of solvePhase2'' s"
    and "solvePhase s = SOLVE_PHASE_2" and "variable_in s \<noteq> - 1" and "row_out s < 0"
  shows "(\<not> bounds_perturbed (info s) \<and> scaled_model_status (ekk_instance s) = NOTSET \<longrightarrow>
            solvePhase2_conclude c s
              = Some (map_ekk (\<lambda>e. e\<lparr>scaled_model_status := PRIMAL_UNBOUNDED\<rparr>)
                        (s\<lparr>solvePhase := SOLVE_PHASE_EXIT\<rparr>)))
       \<and> (bounds_perturbed (info s) \<longrightarrow>
            solvePhase2_conclude c s
              = Some (map_ekk (\<lambda>e. e\<lparr>scaled_model_status := PRIMAL_UNBOUNDED\<rparr>) (cleanup c s)))"
  using assms by (simp add: solvePhase2_conclude_def assert_def)

text \<open>
  On the small instance with perturbed bounds: \<open>cleanup\<close> removes the perturbation, the
  phase stays 2, and the status is \<open>PRIMAL_UNBOUNDED\<close>.
\<close>

theorem phase2_no_row_status_perturbed:
  "bounds_perturbed (info (map_info (\<lambda>i. i\<lparr>bounds_perturbed := True\<rparr>) lp1_state))
   \<and> (\<exists>s'. solvePhase2_conclude lp1_collab (map_info (\<lambda>i. i\<lparr>bounds_perturbed := True\<rparr>) lp1_state)
             = Some s'
          \<and> solvePhase s' = SOLVE_PHASE_2
          \<and> scaled_model_status (ekk_instance s') = PRIMAL_UNBOUNDED
          \<and> \<not> bounds_perturbed (info s'))"
proof -
  define s where "s = map_info (\<lambda>i. i\<lparr>bounds_perturbed := True\<rparr>) lp1_state"
  have f: "\<not> solve_bailout (ekk_instance s)" "solvePhase s = SOLVE_PHASE_2"
    "variable_in s \<noteq> - 1" "row_out s < 0" "bounds_perturbed (info s)"
    by (simp_all add: s_def lp1_state_def)
  have d: "debugPrimalSimplex_ok lp1_collab ''End of solvePhase2'' s"
    by (simp add: lp1_collab_def)
  have c: "solvePhase (cleanup lp1_collab s) = SOLVE_PHASE_2"
    "\<not> bounds_perturbed (info (cleanup lp1_collab s))"
    by (simp_all add: cleanup_def lp1_collab_def s_def lp1_state_def)
  show ?thesis
    unfolding s_def [symmetric]
    using phase2_no_row_status [OF f(1) d f(2,3,4)] f(5) by (simp add: c)
qed

subsection \<open>C10: what a bound flip leaves unchanged\<close>




subsection \<open>C4: the full CHUZC\<close>











subsection \<open>C7: the Devex update\<close>

lemma fold_add_sum_list:
  fixes f :: "'a \<Rightarrow> real"
  shows "fold (\<lambda>x w. w + f x) xs a = a + sum_list (map f xs)"
  by (induction xs arbitrary: a) simp_all

lemma devex_pivot_weight_sum:
  "devex_pivot_weight c s =
     sqrt (sum_list (map (\<lambda>r. (real_of_int (devex_index s ! (basicIndex (basis s) ! r))
                                 * array (col_aq s) ! r)\<^sup>2)
                       (loop_entries c (col_aq s) (num_row s)))
           + real_of_int (devex_index s ! nat (variable_in s)))"
  by (simp add: devex_pivot_weight_def Let_def fold_add_sum_list power2_eq_square)

lemma fold_weight_length:
  fixes dv :: "nat \<Rightarrow> real"
  shows "length (fold (\<lambda>i w. if w ! k i < dv (k i) then w[k i := dv (k i)] else w) xs w)
           = length w"
  by (induction xs arbitrary: w) simp_all

lemma fold_weight:
  fixes dv :: "nat \<Rightarrow> real"
  assumes "j < length w"
  shows "fold (\<lambda>i w. if w ! k i < dv (k i) then w[k i := dv (k i)] else w) xs w ! j
           = (if j \<in> k ` set xs then max (w ! j) (dv j) else w ! j)"
  using assms
proof (induction xs arbitrary: w)
  case Nil
  then show ?case by simp
next
  case (Cons x xs)
  define w1 where "w1 = (if w ! k x < dv (k x) then w[k x := dv (k x)] else w)"
  have l: "length w1 = length w" by (simp add: w1_def)
  have h: "w1 ! j = (if k x = j then max (w ! j) (dv j) else w ! j)"
    using Cons.prems by (auto simp add: w1_def max_def)
  from Cons.IH [of w1] Cons.prems l
  have "fold (\<lambda>i w. if w ! k i < dv (k i) then w[k i := dv (k i)] else w) xs w1 ! j
           = (if j \<in> k ` set xs then max (w1 ! j) (dv j) else w1 ! j)"
    by simp
  with h show ?case
    by (auto simp add: w1_def [symmetric])
qed

lemma updateDevex_weight_eq:
  "updateDevex_weight s V alpha iCol =
     (\<lambda>w. if w ! iCol < V * \<bar>alpha\<bar> + real_of_int (devex_index s ! iCol)
          then w[iCol := V * \<bar>alpha\<bar> + real_of_int (devex_index s ! iCol)] else w)"
  by (rule ext) (simp add: updateDevex_weight_def Let_def)

lemma updateDevex_weight_frame:
  "updateDevex_weight (s\<lparr>num_bad_devex_weight := b\<rparr>) = updateDevex_weight s"
  "updateDevex_weight (s\<lparr>devex_weight := w\<rparr>) = updateDevex_weight s"
  by (rule ext, rule ext, rule ext, rule ext, simp add: updateDevex_weight_def)+

lemma updateDevex_eq:
  "updateDevex c s =
     s\<lparr>num_bad_devex_weight :=
         (if devex_weight s ! nat (variable_in s) > 3 * devex_pivot_weight c s
          then num_bad_devex_weight s + 1 else num_bad_devex_weight s),
       devex_weight :=
         (fold (\<lambda>iRow. updateDevex_weight s
                          (devex_pivot_weight c s / \<bar>array (col_aq s) ! nat (row_out s)\<bar>)
                          (array (row_ep s) ! iRow) (iRow + num_col s))
            (take (count (row_ep s)) (index (row_ep s)))
            (fold (\<lambda>iCol. updateDevex_weight s
                             (devex_pivot_weight c s / \<bar>array (col_aq s) ! nat (row_out s)\<bar>)
                             (array (row_ap s) ! iCol) iCol)
               (take (count (row_ap s)) (index (row_ap s))) (devex_weight s)))
           [nat (variable_out s) :=
              max 1 (devex_pivot_weight c s / \<bar>array (col_aq s) ! nat (row_out s)\<bar>),
            nat (variable_in s) := 1],
       num_devex_iterations := num_devex_iterations s + 1\<rparr>"
proof (cases "devex_weight s ! nat (variable_in s) > 3 * devex_pivot_weight c s")
  case True
  then show ?thesis
    by (simp add: updateDevex_def updateDevex_weight_frame bad_devex_weight_factor_def Let_def)
next
  case False
  then show ?thesis
    by (simp add: updateDevex_def updateDevex_weight_frame bad_devex_weight_factor_def Let_def)
qed


lemma let_inv: "\<lbrakk>I a; \<And>x. I x \<Longrightarrow> Q (f x)\<rbrakk> \<Longrightarrow> Q (Let a f)"
  by simp

lemma update_finish_reset:
  assumes "num_bad_devex_weight s > allowed_num_bad_devex_weight c"
  shows "\<exists>t. update_finish c s = Some t \<and> devex_weight t = replicate (num_tot s) 1
           \<and> num_bad_devex_weight t = 0 \<and> num_devex_iterations t = 0"
proof -
  define I where "I = (\<lambda>x :: HEkkPrimal. num_bad_devex_weight x = num_bad_devex_weight s \<and> num_tot x = num_tot s)"
  define Q where "Q = (\<lambda>m :: HEkkPrimal option. \<exists>t. m = Some t \<and> devex_weight t = replicate (num_tot s) 1
           \<and> num_bad_devex_weight t = 0 \<and> num_devex_iterations t = 0)"
  have fin: "Q (let s = (if num_bad_devex_weight x > allowed_num_bad_devex_weight c
                         then resetDevex x else x);
                    s = map_ekk (\<lambda>e. e\<lparr>total_syntheticTick :=
                            total_syntheticTick e + syntheticTick (col_aq s)\<rparr>) s;
                    s = map_ekk (\<lambda>e. e\<lparr>total_syntheticTick :=
                            total_syntheticTick e + syntheticTick (row_ep s)\<rparr>) s
                in hyperChooseColumn s)" if "I x" for x :: HEkkPrimal
    using that assms
    by (simp add: I_def Q_def Let_def resetDevex_def hyperChooseColumnClear_def
        hyperChooseColumn_def)
  have "Q (update_finish c s)"
    unfolding update_finish_def
    apply (rule let_inv [where I = I and Q = Q])
     apply (simp add: I_def)
    apply (rule let_inv [where I = I and Q = Q])
     apply (simp add: I_def split: prod.splits)
    apply (rule let_inv [where I = I and Q = Q])
     apply (simp add: I_def)
    apply (rule let_inv [where I = I and Q = Q])
     apply (simp add: I_def)
    apply (rule let_inv [where I = I and Q = Q])
     apply (simp add: I_def)
    apply (erule fin)
    done
  then show ?thesis by (simp add: Q_def)
qed

text \<open>
  C7, amended. Write \<open>U\<close> for the pivot weight before its division,
  \<open>sqrt(sum over the rows r of the pivotal column of (devex_index[basicIndex[r]] * a_q[r])^2
  + devex_index[q])\<close> (the rows that the loop visits: all of them, or those of the index list
  of the column), and \<open>V = U / |alpha_col|\<close> for the pivot weight after its division by the
  pivot value. In exact arithmetic, with the structural entries of the pivot row below
  \<open>num_col\<close> and the two counters below the largest \<^verbatim>\<open>int\<close>, the Devex update

  \<^item> increments the counter of bad weights if and only if the weight of \<open>q\<close> before the
    update exceeds \<open>3 * U\<close>, three times the weight before the division;
  \<^item> increments \<open>num_devex_iterations\<close>;
  \<^item> sets \<open>devex_weight[q] = 1\<close> and \<open>devex_weight[v_out] = max(1, V)\<close>;
  \<^item> sets the weight of every other column \<open>j\<close> with an entry \<open>alpha_j\<close> in the index list
    of the pivot row (\<open>row_ap\<close> for a structural column, \<open>row_ep\<close> for a slack) to
    \<open>max(devex_weight[j], V * |alpha_j| + devex_index[j])\<close>, where \<open>alpha_j\<close> is the entry of
    the pivot row in column \<open>j\<close>, and leaves the other weights as they are.

  At the end of \<open>update\<close> (\<open>update_finish\<close>), a counter above the allowed number resets the
  Devex framework: all weights are 1 and the counters are 0.
\<close>

theorem devex_update:
  fixes c s
  defines "U \<equiv> devex_pivot_weight c s"
  defines "V \<equiv> U / \<bar>array (col_aq s) ! nat (row_out s)\<bar>"
  defines "q \<equiv> nat (variable_in s)" and "vo \<equiv> nat (variable_out s)"
  defines "ap \<equiv> set (take (count (row_ap s)) (index (row_ap s)))"
    and "ep \<equiv> set (take (count (row_ep s)) (index (row_ep s)))"
  assumes "ap \<subseteq> {..<num_col s}"
    and "num_bad_devex_weight s < 2 ^ 31 - 1" and "num_devex_iterations s < 2 ^ 31 - 1"
  shows "U = sqrt (sum_list (map (\<lambda>r. (real_of_int (devex_index s ! (basicIndex (basis s) ! r))
                                          * array (col_aq s) ! r)\<^sup>2)
                               (loop_entries c (col_aq s) (num_row s)))
                   + real_of_int (devex_index s ! q))
       \<and> num_bad_devex_weight (updateDevex c s)
           = num_bad_devex_weight s + (if devex_weight s ! q > 3 * U then 1 else 0)
       \<and> num_bad_devex_weight (updateDevex c s) \<le> 2 ^ 31 - 1
       \<and> num_devex_iterations (updateDevex c s) = num_devex_iterations s + 1
       \<and> length (devex_weight (updateDevex c s)) = length (devex_weight s)
       \<and> (\<forall>j<length (devex_weight s).
             devex_weight (updateDevex c s) ! j
               = (if j = q then 1
                  else if j = vo then max 1 V
                  else if j < num_col s then
                    (if j \<in> ap
                     then max (devex_weight s ! j)
                            (V * \<bar>array (row_ap s) ! j\<bar> + real_of_int (devex_index s ! j))
                     else devex_weight s ! j)
                  else
                    (if j - num_col s \<in> ep
                     then max (devex_weight s ! j)
                            (V * \<bar>array (row_ep s) ! (j - num_col s)\<bar>
                             + real_of_int (devex_index s ! j))
                     else devex_weight s ! j)))
       \<and> (num_bad_devex_weight s > allowed_num_bad_devex_weight c \<longrightarrow>
            (\<exists>t. update_finish c s = Some t \<and> devex_weight t = replicate (num_tot s) 1
               \<and> num_bad_devex_weight t = 0 \<and> num_devex_iterations t = 0))"
proof -
  define w0 where "w0 = devex_weight s"
  define dv1 where "dv1 = (\<lambda>j. V * \<bar>array (row_ap s) ! j\<bar> + real_of_int (devex_index s ! j))"
  define dv2 where "dv2 = (\<lambda>j. V * \<bar>array (row_ep s) ! (j - num_col s)\<bar>
                               + real_of_int (devex_index s ! j))"
  define apl where "apl = take (count (row_ap s)) (index (row_ap s))"
  define epl where "epl = take (count (row_ep s)) (index (row_ep s))"
  define w1 where "w1 = fold (\<lambda>i w. if w ! i < dv1 i then w[i := dv1 i] else w) apl w0"
  define w2 where "w2 = fold (\<lambda>i w. if w ! (i + num_col s) < dv2 (i + num_col s)
                                      then w[i + num_col s := dv2 (i + num_col s)] else w) epl w1"
  have f1: "(\<lambda>iCol. updateDevex_weight s V (array (row_ap s) ! iCol) iCol)
              = (\<lambda>i w. if w ! i < dv1 i then w[i := dv1 i] else w)"
    unfolding dv1_def updateDevex_weight_eq by (rule refl)
  have f2: "(\<lambda>iRow. updateDevex_weight s V (array (row_ep s) ! iRow) (iRow + num_col s))
              = (\<lambda>i w. if w ! (i + num_col s) < dv2 (i + num_col s)
                        then w[i + num_col s := dv2 (i + num_col s)] else w)"
    unfolding dv2_def updateDevex_weight_eq add_diff_cancel_right' by (rule refl)
  have e: "updateDevex c s =
     s\<lparr>num_bad_devex_weight :=
         (if devex_weight s ! q > 3 * U then num_bad_devex_weight s + 1 else num_bad_devex_weight s),
       devex_weight := w2[vo := max 1 V, q := 1],
       num_devex_iterations := num_devex_iterations s + 1\<rparr>"
    unfolding updateDevex_eq U_def [symmetric] V_def [symmetric] q_def [symmetric]
      vo_def [symmetric] f1 f2 apl_def [symmetric] epl_def [symmetric] w0_def [symmetric]
      w1_def [symmetric] w2_def [symmetric]
    by (rule refl)
  have l1: "length w1 = length w0"
    unfolding w1_def by (rule fold_weight_length [where k = "\<lambda>i. i"])
  have g1: "w1 ! j = (if j \<in> set apl then max (w0 ! j) (dv1 j) else w0 ! j)"
    if "j < length w0" for j
    using fold_weight [where k = "\<lambda>i. i" and dv = dv1 and xs = apl, OF that]
    by (simp add: w1_def)
  have l2: "length w2 = length w1"
    unfolding w2_def by (rule fold_weight_length [where k = "\<lambda>i. i + num_col s"])
  have g2: "w2 ! j = (if j \<in> (\<lambda>i. i + num_col s) ` set epl then max (w1 ! j) (dv2 j)
                      else w1 ! j)"
    if "j < length w1" for j
    using fold_weight [where k = "\<lambda>i. i + num_col s" and dv = dv2 and xs = epl, OF that]
    by (simp add: w2_def)
  have img: "j \<in> (\<lambda>i. i + num_col s) ` set epl \<longleftrightarrow> num_col s \<le> j \<and> j - num_col s \<in> ep" for j
  proof
    assume "j \<in> (\<lambda>i. i + num_col s) ` set epl"
    then show "num_col s \<le> j \<and> j - num_col s \<in> ep"
      by (auto simp add: ep_def epl_def)
  next
    assume a: "num_col s \<le> j \<and> j - num_col s \<in> ep"
    then have "j = (j - num_col s) + num_col s" by simp
    moreover have "j - num_col s \<in> set epl" using a by (simp add: ep_def epl_def)
    ultimately show "j \<in> (\<lambda>i. i + num_col s) ` set epl" by (rule image_eqI)
  qed
  have apr: "j \<in> set apl \<Longrightarrow> j < num_col s" for j
    using assms(7) by (auto simp add: ap_def apl_def)
  have w2j: "w2 ! j = (if j < num_col s then (if j \<in> ap then max (w0 ! j) (dv1 j) else w0 ! j)
                       else (if j - num_col s \<in> ep then max (w0 ! j) (dv2 j) else w0 ! j))"
    if "j < length w0" for j
  proof (cases "j < num_col s")
    case True
    then have "j \<notin> (\<lambda>i. i + num_col s) ` set epl" by (simp add: img)
    with g2 [of j] that l1 have "w2 ! j = w1 ! j" by simp
    with g1 [OF that] True show ?thesis by (simp add: ap_def apl_def)
  next
    case False
    then have "j \<notin> set apl" using apr by blast
    with g1 [OF that] have "w1 ! j = w0 ! j" by simp
    with g2 [of j] that l1 False show ?thesis by (simp add: img)
  qed
  have wj: "devex_weight (updateDevex c s) ! j
               = (if j = q then 1
                  else if j = vo then max 1 V
                  else if j < num_col s then (if j \<in> ap then max (w0 ! j) (dv1 j) else w0 ! j)
                  else (if j - num_col s \<in> ep then max (w0 ! j) (dv2 j) else w0 ! j))"
    if "j < length w0" for j
    using that w2j [OF that] l1 l2 by (simp add: e nth_list_update)
  have 1: "U = sqrt (sum_list (map (\<lambda>r. (real_of_int (devex_index s ! (basicIndex (basis s) ! r))
                                          * array (col_aq s) ! r)\<^sup>2)
                               (loop_entries c (col_aq s) (num_row s)))
                   + real_of_int (devex_index s ! q))"
    unfolding U_def q_def by (rule devex_pivot_weight_sum)
  have 2: "num_bad_devex_weight (updateDevex c s)
           = num_bad_devex_weight s + (if devex_weight s ! q > 3 * U then 1 else 0)"
    "num_devex_iterations (updateDevex c s) = num_devex_iterations s + 1"
    "length (devex_weight (updateDevex c s)) = length (devex_weight s)"
    by (simp_all add: e l1 l2 w0_def)
  have 3: "num_bad_devex_weight (updateDevex c s) \<le> 2 ^ 31 - 1"
    using 2(1) assms(8) by simp
  have 4: "\<forall>j<length (devex_weight s).
             devex_weight (updateDevex c s) ! j
               = (if j = q then 1
                  else if j = vo then max 1 V
                  else if j < num_col s then
                    (if j \<in> ap
                     then max (devex_weight s ! j)
                            (V * \<bar>array (row_ap s) ! j\<bar> + real_of_int (devex_index s ! j))
                     else devex_weight s ! j)
                  else
                    (if j - num_col s \<in> ep
                     then max (devex_weight s ! j)
                            (V * \<bar>array (row_ep s) ! (j - num_col s)\<bar>
                             + real_of_int (devex_index s ! j))
                     else devex_weight s ! j))"
    using wj unfolding w0_def dv1_def dv2_def by blast
  have 5: "num_bad_devex_weight s > allowed_num_bad_devex_weight c \<longrightarrow>
            (\<exists>t. update_finish c s = Some t \<and> devex_weight t = replicate (num_tot s) 1
               \<and> num_bad_devex_weight t = 0 \<and> num_devex_iterations t = 0)"
    using update_finish_reset by blast
  show ?thesis
    by (intro conjI) (rule 1 2 3 4 5)+
qed

lemma lp2_pivot_weight: "devex_pivot_weight lp1_collab lp2_state = 2"
  by (simp add: devex_pivot_weight_def loop_entries_def lp2_state_def lp1_state_def
      lp1_collab_def Let_def)

lemma lp2_fields:
  "array (col_aq lp2_state) ! nat (row_out lp2_state) = 2"
  "variable_in lp2_state = 0" "variable_out lp2_state = 2" "devex_weight lp2_state = [4, 1, 1]"
  "num_col lp2_state = 2" "num_bad_devex_weight lp2_state = 0" "num_devex_iterations lp2_state = 0"
  "take (count (row_ap lp2_state)) (index (row_ap lp2_state)) = [0, 1]"
  "take (count (row_ep lp2_state)) (index (row_ep lp2_state)) = [0]"
  "array (row_ap lp2_state) = [2, 3]" "array (row_ep lp2_state) = [1]"
  "devex_index lp2_state = [0, 1, 1]"
  by (simp_all add: lp2_state_def lp1_state_def)

text \<open>
  The test of the saved weight is against the pivot weight before its division. On
  \<open>lp2_state\<close> the weight before the division is \<open>U = sqrt((1 * 2)^2 + 0) = 2\<close> and the pivot
  value is 2, so the weight after the division is \<open>V = 1\<close>. The saved weight 4 of the
  entering column exceeds \<open>3 * V = 3\<close> but not \<open>3 * U = 6\<close>, and the counter of bad weights is
  not incremented. The leaving variable gets the weight \<open>max(1, V) = 1\<close>, not
  \<open>max(1, U) = 2\<close>, and column 1, whose entry in the pivot row is 3, gets
  \<open>V * 3 + 1 = 4\<close>: no single value of the pivot weight fits both the test and the new
  weights.
\<close>

theorem devex_bad_weight_test:
  "devex_pivot_weight lp1_collab lp2_state = 2
   \<and> array (col_aq lp2_state) ! nat (row_out lp2_state) = 2
   \<and> variable_in lp2_state = 0 \<and> variable_out lp2_state = 2
   \<and> devex_weight lp2_state = [4, 1, 1]
   \<and> num_bad_devex_weight (updateDevex lp1_collab lp2_state) = num_bad_devex_weight lp2_state
   \<and> devex_weight (updateDevex lp1_collab lp2_state) = [1, 4, 1]"
proof -
  have g: "num_bad_devex_weight (updateDevex lp1_collab lp2_state) = num_bad_devex_weight lp2_state"
    "devex_weight (updateDevex lp1_collab lp2_state) = [1, 4, 1]"
    by (simp_all add: updateDevex_eq lp2_pivot_weight lp2_fields updateDevex_weight_def Let_def)
  from lp2_pivot_weight lp2_fields(1-4) g show ?thesis by simp
qed

text \<open>
  On \<open>lp2_state\<close>, and on \<open>lp2_bad\<close> for the reset.
\<close>

theorem devex_update_witness:
  "devex_pivot_weight lp1_collab lp2_state = sqrt ((1 * 2)\<^sup>2 + 0)
   \<and> num_bad_devex_weight (updateDevex lp1_collab lp2_state) = 0
   \<and> num_devex_iterations (updateDevex lp1_collab lp2_state) = 1
   \<and> devex_weight (updateDevex lp1_collab lp2_state) ! 0 = 1
   \<and> devex_weight (updateDevex lp1_collab lp2_state) ! 1 = max 1 (2 / 2 * 3 + 1)
   \<and> devex_weight (updateDevex lp1_collab lp2_state) ! 2 = max 1 (2 / 2)
   \<and> (\<exists>t. update_finish lp1_collab lp2_bad = Some t \<and> devex_weight t = [1, 1, 1]
         \<and> num_bad_devex_weight t = 0)"
proof -
  have three: "\<And>P. (\<forall>v<3::nat. P v) \<longleftrightarrow> P 0 \<and> P 1 \<and> P 2"
    by (auto simp add: numeral_3_eq_3 numeral_2_eq_2 All_less_Suc)
  have h: "set (take (count (row_ap lp2_state)) (index (row_ap lp2_state))) \<subseteq> {..<num_col lp2_state}"
    "num_bad_devex_weight lp2_state < 2 ^ 31 - 1" "num_devex_iterations lp2_state < 2 ^ 31 - 1"
    by (simp_all add: lp2_fields)
  have hb: "set (take (count (row_ap lp2_bad)) (index (row_ap lp2_bad))) \<subseteq> {..<num_col lp2_bad}"
    "num_bad_devex_weight lp2_bad < 2 ^ 31 - 1" "num_devex_iterations lp2_bad < 2 ^ 31 - 1"
    by (simp_all add: lp2_bad_def lp2_state_def lp1_state_def)
  have fb: "num_bad_devex_weight lp2_bad > allowed_num_bad_devex_weight lp1_collab"
    "num_tot lp2_bad = 3"
    by (simp_all add: lp2_bad_def lp2_state_def lp1_collab_def)
  from devex_update [OF h, of lp1_collab] have
    "num_bad_devex_weight (updateDevex lp1_collab lp2_state) = 0
     \<and> num_devex_iterations (updateDevex lp1_collab lp2_state) = 1
     \<and> devex_weight (updateDevex lp1_collab lp2_state) ! 0 = 1
     \<and> devex_weight (updateDevex lp1_collab lp2_state) ! 1 = max 1 (2 / 2 * 3 + 1)
     \<and> devex_weight (updateDevex lp1_collab lp2_state) ! 2 = max 1 (2 / 2)"
    by (simp add: lp2_pivot_weight lp2_fields three)
  moreover from devex_update [OF hb, of lp1_collab] fb have
    "\<exists>t. update_finish lp1_collab lp2_bad = Some t \<and> devex_weight t = [1, 1, 1]
         \<and> num_bad_devex_weight t = 0"
    by (auto simp add: numeral_3_eq_3)
  ultimately show ?thesis using lp2_pivot_weight by simp
qed

subsection \<open>C2: the set of nonbasic free columns\<close>













end
